theory Spec2Isabelle
  imports Complex_Main
begin

section \<open>Strings\<close>

text \<open>
  A JavaScript string is a sequence of code units. Here it is a \<^typ>\<open>string\<close>, whose
  characters stand for the code units below 256 (ASCII and Latin-1). The regular
  expression \<^verbatim>\<open>/[^a-zA-Z0-9_]/g\<close> has no \<^verbatim>\<open>u\<close> flag, so it tests one
  code unit at a time.
\<close>

definition is_word_char :: "char \<Rightarrow> bool" where
  "is_word_char c =
     (let n = (of_char c :: nat)
      in (97 \<le> n \<and> n \<le> 122) \<or> (65 \<le> n \<and> n \<le> 90) \<or> (48 \<le> n \<and> n \<le> 57) \<or> n = 95)"

text \<open>\<^verbatim>\<open>s.replace(/[^a-zA-Z0-9_]/g, '_')\<close>, written inline three times in the source.\<close>

definition sanitize :: "string \<Rightarrow> string" where
  "sanitize s = map (\<lambda>c. if is_word_char c then c else CHR ''_'') s"

text \<open>\<^verbatim>\<open>s.split('_')\<close>: the segments between underscores, empty ones included.\<close>

fun split_on :: "char \<Rightarrow> string \<Rightarrow> string list" where
  "split_on sep [] = [[]]"
| "split_on sep (c # cs) =
     (if c = sep then [] # split_on sep cs
      else (case split_on sep cs of
              [] \<Rightarrow> [[c]]
            | seg # segs \<Rightarrow> (c # seg) # segs))"

text \<open>\<^verbatim>\<open>parts.join(sep)\<close>.\<close>

fun join :: "string \<Rightarrow> string list \<Rightarrow> string" where
  "join sep [] = []"
| "join sep [p] = p"
| "join sep (p # q # ps) = p @ sep @ join sep (q # ps)"

text \<open>
  \<^verbatim>\<open>toLowerCase\<close> on code units below 256: the ASCII capitals and the Latin-1
  capitals (all of C0..DE but the multiplication sign D7) move up by 32.
\<close>

definition lower_char :: "char \<Rightarrow> char" where
  "lower_char c =
     (let n = (of_char c :: nat)
      in if (65 \<le> n \<and> n \<le> 90) \<or> (192 \<le> n \<and> n \<le> 214) \<or> (216 \<le> n \<and> n \<le> 222)
         then char_of (n + 32) else c)"

definition toLowerCase :: "string \<Rightarrow> string" where
  "toLowerCase s = map lower_char s"

text \<open>
  \<^verbatim>\<open>toUpperCase\<close>, for the ASCII letters. The source applies it only to a method
  name that has passed the membership test in \<^verbatim>\<open>HttpMethods\<close>, which is ASCII.
\<close>

definition upper_char :: "char \<Rightarrow> char" where
  "upper_char c =
     (let n = (of_char c :: nat)
      in if 97 \<le> n \<and> n \<le> 122 then char_of (n - 32) else c)"

definition toUpperCase :: "string \<Rightarrow> string" where
  "toUpperCase s = map upper_char s"

text \<open>A string is truthy when it is not empty.\<close>

definition truthy_str :: "string option \<Rightarrow> bool" where
  "truthy_str s = (case s of None \<Rightarrow> False | Some t \<Rightarrow> t \<noteq> [])"

section \<open>Tool names\<close>

text \<open>
  The fallback, written out in both derivations:
  \<^verbatim>\<open>path.replace(/[^a-zA-Z0-9_]/g, '_').split('_').filter(p => p)\<close> and
  \<^verbatim>\<open>`${method.toLowerCase()}_${pathParts.join('_')}`\<close>.
\<close>

definition pathParts :: "string \<Rightarrow> string list" where
  "pathParts path = filter (\<lambda>p. p \<noteq> []) (split_on CHR ''_'' (sanitize path))"

definition fallbackName :: "string \<Rightarrow> string \<Rightarrow> string" where
  "fallbackName method path = toLowerCase method @ ''_'' @ join ''_'' (pathParts path)"

text \<open>
  \<^verbatim>\<open>generateToolName(method, path, operationId?)\<close> of the converter: the identifier
  is tested first (\<^verbatim>\<open>if (operationId)\<close>) and sanitized when it is truthy.
\<close>

definition generateToolName :: "string \<Rightarrow> string \<Rightarrow> string option \<Rightarrow> string" where
  "generateToolName method path operationId =
     (case operationId of
        None \<Rightarrow> fallbackName method path
      | Some ident \<Rightarrow> if ident \<noteq> [] then sanitize ident else fallbackName method path)"

text \<open>
  The name recomputed inline by \<^verbatim>\<open>buildOperationMap\<close>:
  \<^verbatim>\<open>let toolName = operation.operationId?.replace(...); if (!toolName) { ... }\<close>.
  Here the identifier is sanitized first and the sanitized text is tested.
\<close>

definition indexToolName :: "string \<Rightarrow> string \<Rightarrow> string option \<Rightarrow> string" where
  "indexToolName method path operationId =
     (case map_option sanitize operationId of
        None \<Rightarrow> fallbackName method path
      | Some toolName \<Rightarrow> if toolName \<noteq> [] then toolName else fallbackName method path)"

section \<open>Values\<close>

text \<open>
  The values a parsed JSON or YAML text can hold, and the functions and objects of the
  runtime that a property read on a plain object can reach, by the name they are reached
  under. A finite number is kept as its exact rational value; of a number only the test
  against zero is used.
\<close>

datatype jsnumber = NaN | PosInfinity | NegInfinity | Finite rat

datatype jsvalue =
    JNull
  | JBool bool
  | JNum jsnumber
  | JStr string
  | JArr "jsvalue list"
  | JObj "(string \<times> jsvalue) list"
  | JNative string

text \<open>Truthiness, as \<^verbatim>\<open>if (v)\<close> tests it; an absent value is falsy.\<close>

fun truthy :: "jsvalue \<Rightarrow> bool" where
  "truthy JNull = False"
| "truthy (JBool b) = b"
| "truthy (JNum NaN) = False"
| "truthy (JNum (Finite r)) = (r \<noteq> 0)"
| "truthy (JNum PosInfinity) = True"
| "truthy (JNum NegInfinity) = True"
| "truthy (JStr s) = (s \<noteq> [])"
| "truthy (JArr vs) = True"
| "truthy (JObj kvs) = True"
| "truthy (JNative n) = True"

definition truthy_opt :: "jsvalue option \<Rightarrow> bool" where
  "truthy_opt v = (case v of None \<Rightarrow> False | Some w \<Rightarrow> truthy w)"

definition truthy_flag :: "bool option \<Rightarrow> bool" where
  "truthy_flag b = (case b of None \<Rightarrow> False | Some c \<Rightarrow> c)"

text \<open>\<^verbatim>\<open>s || ''\<close> on an optional string.\<close>

definition or_empty :: "string option \<Rightarrow> string" where
  "or_empty s = (case s of None \<Rightarrow> [] | Some t \<Rightarrow> t)"

text \<open>
  \<^verbatim>\<open>trim\<close> on code units below 256: tab, line feed, vertical tab, form feed,
  carriage return, space and the no-break space are white space.
\<close>

definition is_space :: "char \<Rightarrow> bool" where
  "is_space c = (of_char c \<in> {9, 10, 11, 12, 13, 32, 160 :: nat})"

definition trim :: "string \<Rightarrow> string" where
  "trim s = rev (dropWhile is_space (rev (dropWhile is_space s)))"

text \<open>
  A plain object as the list of its own properties in the order they are enumerated:
  the keys that are array indices (canonical decimal numerals below 4294967295) come
  first, in ascending order, the other keys follow in the order they were added.
\<close>

definition is_digit :: "char \<Rightarrow> bool" where
  "is_digit c = (48 \<le> (of_char c :: nat) \<and> (of_char c :: nat) \<le> 57)"

definition digits_value :: "string \<Rightarrow> int" where
  "digits_value k = foldl (\<lambda>n c. 10 * n + (of_char c - 48)) 0 k"

definition array_index :: "string \<Rightarrow> int option" where
  "array_index k =
     (case k of
        [] \<Rightarrow> None
      | c # cs \<Rightarrow>
          if list_all is_digit k \<and> (cs = [] \<or> c \<noteq> CHR ''0'') \<and> length k \<le> 10
             \<and> digits_value k < 4294967295
          then Some (digits_value k) else None)"

fun insert_index :: "int \<Rightarrow> string \<Rightarrow> 'v \<Rightarrow> (string \<times> 'v) list \<Rightarrow> (string \<times> 'v) list" where
  "insert_index n k v [] = [(k, v)]"
| "insert_index n k v ((k', v') # kvs) =
     (case array_index k' of
        None \<Rightarrow> (k, v) # (k', v') # kvs
      | Some n' \<Rightarrow>
          if n' < n then (k', v') # insert_index n k v kvs else (k, v) # (k', v') # kvs)"

text \<open>
  \<^verbatim>\<open>obj[k] = v\<close> where \<^verbatim>\<open>v\<close> is an object, as it is in every use below. Under
  the key \<^verbatim>\<open>__proto__\<close> the assignment sets the prototype and adds no property; an
  existing key keeps its place; a new key takes its place in the enumeration order.
\<close>

definition obj_set :: "(string \<times> 'v) list \<Rightarrow> string \<Rightarrow> 'v \<Rightarrow> (string \<times> 'v) list" where
  "obj_set kvs k v =
     (if k = ''__proto__'' then kvs
      else if k \<in> set (map fst kvs)
        then map (\<lambda>e. if fst e = k then (k, v) else e) kvs
      else (case array_index k of
              None \<Rightarrow> kvs @ [(k, v)]
            | Some n \<Rightarrow> insert_index n k v kvs))"

text \<open>The assignments of a list of entries, one after the other.\<close>

fun assign_all :: "(string \<times> 'v) list \<Rightarrow> (string \<times> 'v) list \<Rightarrow> (string \<times> 'v) list" where
  "assign_all [] obj = obj"
| "assign_all ((k, v) # kvs) obj = assign_all kvs (obj_set obj k v)"

text \<open>
  A property read \<^verbatim>\<open>obj[k]\<close> on a plain object: an own property, or else what
  \<^verbatim>\<open>Object.prototype\<close> holds under that name; nothing stands for
  \<^verbatim>\<open>undefined\<close>.
\<close>

definition Object_prototype_names :: "string list" where
  "Object_prototype_names =
     [''constructor'', ''__defineGetter__'', ''__defineSetter__'', ''hasOwnProperty'',
      ''__lookupGetter__'', ''__lookupSetter__'', ''isPrototypeOf'',
      ''propertyIsEnumerable'', ''toString'', ''valueOf'', ''__proto__'',
      ''toLocaleString'']"

definition get_property :: "(string \<rightharpoonup> jsvalue) \<Rightarrow> string \<Rightarrow> jsvalue option" where
  "get_property obj k =
     (case obj k of
        Some v \<Rightarrow> Some v
      | None \<Rightarrow> if k \<in> set Object_prototype_names then Some (JNative k) else None)"

section \<open>The API document\<close>

text \<open>
  A schema node of the document is a reference object or a schema object. The fields of
  a schema object that do not recur are a record; the item schema and the property
  schemas are the node's children. A property may hold no schema.
\<close>

record oa_attrs =
  oa_type :: "string option"
  oa_format :: "string option"
  oa_description :: "string option"
  oa_default :: "jsvalue option"
  oa_enum :: "jsvalue list option"
  oa_required :: "string list option"

datatype oa_schema =
    Ref string
  | Schema oa_attrs "oa_schema option" "(string \<times> oa_schema option) list option"

record param =
  p_name :: string
  p_in :: string
  p_required :: "bool option"
  p_description :: "string option"
  p_schema :: "oa_schema option"

datatype param_or_ref = ParamRef string | Param param

record media_type =
  mt_schema :: "oa_schema option"

record request_body =
  rb_description :: "string option"
  rb_content :: "(string \<times> media_type) list option"
  rb_required :: "bool option"

datatype body_or_ref = BodyRef string | Body request_body

record operation =
  operationId :: "string option"
  summary :: "string option"
  op_description :: "string option"
  parameters :: "param_or_ref list option"
  requestBody :: "body_or_ref option"

text \<open>
  A path item in the order \<^verbatim>\<open>for (const method in pathItem)\<close> visits its keys.
  Under a key that is not an HTTP method the value is never read; under a method it is
  the operation, or nothing when the value is falsy.
\<close>

type_synonym path_item = "(string \<times> operation option) list"

record document =
  paths :: "(string \<times> path_item option) list option"

text \<open>The values of the enumeration \<^verbatim>\<open>OpenAPIV3.HttpMethods\<close> of openapi-types.\<close>

definition HttpMethods :: "string list" where
  "HttpMethods =
     [''get'', ''put'', ''post'', ''delete'', ''options'', ''head'', ''patch'', ''trace'']"

section \<open>Schema Translator\<close>

record js_attrs =
  js_type :: "string option"
  js_contentEncoding :: "string option"
  js_description :: "string option"
  js_enum :: "jsvalue list option"
  js_required :: "string list option"
  js_default :: "jsvalue option"

datatype js_schema =
  JsSchema (attrs: js_attrs) (js_items: "js_schema option")
    (js_properties: "(string \<times> js_schema) list option")

definition empty_attrs :: js_attrs where
  "empty_attrs = \<lparr>js_type = None, js_contentEncoding = None, js_description = None,
     js_enum = None, js_required = None, js_default = None\<rparr>"

definition binary_note :: string where
  "binary_note = '' (Note: Binary content expected as base64 string)''"

text \<open>
  The \<^verbatim>\<open>switch (oaSchema.type)\<close> of \<^verbatim>\<open>openApiSchemaToJsonSchema\<close>, for the
  fields that do not recur. An empty type string is falsy and skips the switch.
\<close>

definition map_type :: "oa_attrs \<Rightarrow> js_attrs" where
  "map_type a =
     (case oa_type a of
        None \<Rightarrow> empty_attrs
      | Some t \<Rightarrow>
          if t = [] then empty_attrs
          else if t = ''integer'' then empty_attrs\<lparr>js_type := Some ''integer''\<rparr>
          else if t = ''number'' then empty_attrs\<lparr>js_type := Some ''number''\<rparr>
          else if t = ''string'' then
            (let js1 = empty_attrs\<lparr>js_type := Some ''string''\<rparr>;
                 js2 = (if oa_format a = Some ''byte'' \<or> oa_format a = Some ''binary''
                        then js1\<lparr>js_contentEncoding :=
                                   (if oa_format a = Some ''byte'' then Some ''base64'' else None),
                                 js_description :=
                                   Some (trim (or_empty (oa_description a) @ binary_note))\<rparr>
                        else js1)
             in (case oa_enum a of None \<Rightarrow> js2 | Some e \<Rightarrow> js2\<lparr>js_enum := Some e\<rparr>))
          else if t = ''boolean'' then empty_attrs\<lparr>js_type := Some ''boolean''\<rparr>
          else if t = ''array'' then empty_attrs\<lparr>js_type := Some ''array''\<rparr>
          else if t = ''object'' then
            (let js1 = empty_attrs\<lparr>js_type := Some ''object''\<rparr>
             in (case oa_required a of None \<Rightarrow> js1 | Some r \<Rightarrow> js1\<lparr>js_required := Some r\<rparr>))
          else empty_attrs)"

text \<open>
  The two statements after the switch:
  \<^verbatim>\<open>if (oaSchema.description) jsSchema.description = jsSchema.description || oaSchema.description\<close>
  and \<^verbatim>\<open>if (oaSchema.default) jsSchema.default = oaSchema.default\<close>.
\<close>

definition carry_description :: "oa_attrs \<Rightarrow> js_attrs \<Rightarrow> js_attrs" where
  "carry_description a js =
     (if truthy_str (oa_description a)
      then js\<lparr>js_description :=
                (if truthy_str (js_description js) then js_description js
                 else oa_description a)\<rparr>
      else js)"

definition carry_default :: "oa_attrs \<Rightarrow> js_attrs \<Rightarrow> js_attrs" where
  "carry_default a js =
     (if truthy_opt (oa_default a) then js\<lparr>js_default := oa_default a\<rparr> else js)"

text \<open>
  The translation of a node that is present. A reference object gives the empty schema.
  The item schema is read under type array and the properties under type object only;
  each property that translates is assigned to the fresh \<^verbatim>\<open>jsSchema.properties\<close>.
\<close>

fun translate :: "oa_schema \<Rightarrow> js_schema"
  and translate_props :: "(string \<times> oa_schema option) list \<Rightarrow> (string \<times> js_schema) list"
where
  "translate (Ref r) = JsSchema empty_attrs None None"
| "translate (Schema a its props) =
     JsSchema (carry_default a (carry_description a (map_type a)))
       (if oa_type a = Some ''array''
        then (case its of None \<Rightarrow> None | Some s \<Rightarrow> Some (translate s))
        else None)
       (if oa_type a = Some ''object''
        then (case props of None \<Rightarrow> None | Some ps \<Rightarrow> Some (assign_all (translate_props ps) []))
        else None)"
| "translate_props [] = []"
| "translate_props ((k, None) # ps) = translate_props ps"
| "translate_props ((k, Some s) # ps) = (k, translate s) # translate_props ps"

text \<open>\<^verbatim>\<open>openApiSchemaToJsonSchema\<close>: an absent node gives no schema.\<close>

definition openApiSchemaToJsonSchema :: "oa_schema option \<Rightarrow> js_schema option" where
  "openApiSchemaToJsonSchema oaSchema =
     (case oaSchema of None \<Rightarrow> None | Some s \<Rightarrow> Some (translate s))"

section \<open>Tool Catalog Builder\<close>

record tool =
  name :: string
  t_description :: string
  inputSchema :: js_schema

definition schema_description :: "js_schema \<Rightarrow> string option" where
  "schema_description s = js_description (attrs s)"

definition set_description :: "string option \<Rightarrow> js_schema \<Rightarrow> js_schema" where
  "set_description d s =
     JsSchema ((attrs s)\<lparr>js_description := d\<rparr>) (js_items s) (js_properties s)"

text \<open>
  The body of the loop over \<^verbatim>\<open>operation.parameters\<close> in
  \<^verbatim>\<open>convertOpenAPIToMcTools\<close>, on the pair of \<^verbatim>\<open>inputSchema.properties\<close>
  and \<^verbatim>\<open>inputSchema.required\<close>.
\<close>

definition add_param ::
  "param_or_ref \<Rightarrow> (string \<times> js_schema) list \<times> string list
     \<Rightarrow> (string \<times> js_schema) list \<times> string list" where
  "add_param pr acc =
     (case pr of
        ParamRef r \<Rightarrow> acc
      | Param p \<Rightarrow>
          (case openApiSchemaToJsonSchema (p_schema p) of
             None \<Rightarrow> acc
           | Some paramSchema \<Rightarrow>
               (let s1 = (if truthy_str (p_description p)
                             \<and> \<not> truthy_str (schema_description paramSchema)
                          then set_description (p_description p) paramSchema
                          else paramSchema);
                    s2 = set_description
                           (Some (trim (or_empty (schema_description s1)
                                          @ '' (in: '' @ p_in p @ '')''))) s1
                in (obj_set (fst acc) (p_name p) s2,
                    if truthy_flag (p_required p) then snd acc @ [p_name p] else snd acc))))"

fun add_params ::
  "param_or_ref list \<Rightarrow> (string \<times> js_schema) list \<times> string list
     \<Rightarrow> (string \<times> js_schema) list \<times> string list" where
  "add_params [] acc = acc"
| "add_params (pr # prs) acc = add_params prs (add_param pr acc)"

text \<open>\<^verbatim>\<open>requestBody.content?.['application/json']\<close>.\<close>

definition json_content :: "request_body \<Rightarrow> media_type option" where
  "json_content b =
     (case rb_content b of None \<Rightarrow> None | Some c \<Rightarrow> map_of c ''application/json'')"

text \<open>The request body part: the property \<^verbatim>\<open>requestBody\<close>.\<close>

definition add_body ::
  "body_or_ref option \<Rightarrow> (string \<times> js_schema) list \<times> string list
     \<Rightarrow> (string \<times> js_schema) list \<times> string list" where
  "add_body rb acc =
     (case rb of
        None \<Rightarrow> acc
      | Some (BodyRef r) \<Rightarrow> acc
      | Some (Body b) \<Rightarrow>
          (case json_content b of
             None \<Rightarrow> acc
           | Some jsonContent \<Rightarrow>
               (case openApiSchemaToJsonSchema (mt_schema jsonContent) of
                  None \<Rightarrow> acc
                | Some requestBodySchema \<Rightarrow>
                    (let s = (if \<not> truthy_str (schema_description requestBodySchema)
                              then set_description
                                     (Some (if truthy_str (rb_description b)
                                            then or_empty (rb_description b)
                                            else ''The request body (JSON)''))
                                     requestBodySchema
                              else requestBodySchema)
                     in (obj_set (fst acc) ''requestBody'' s,
                         if truthy_flag (rb_required b) then snd acc @ [''requestBody'']
                         else snd acc)))))"

definition build_input_schema :: "operation \<Rightarrow> js_schema" where
  "build_input_schema opn =
     (let acc1 = (case parameters opn of None \<Rightarrow> ([], []) | Some ps \<Rightarrow> add_params ps ([], []));
          acc2 = add_body (requestBody opn) acc1
      in JsSchema
           (empty_attrs\<lparr>js_type := Some ''object'',
                         js_required := (if snd acc2 = [] then None else Some (snd acc2))\<rparr>)
           None (Some (fst acc2)))"

text \<open>One pass of the inner loop that reaches \<^verbatim>\<open>tools.push\<close>.\<close>

definition build_tool :: "string \<Rightarrow> string \<Rightarrow> operation \<Rightarrow> tool" where
  "build_tool method path opn =
     \<lparr>name = generateToolName method path (operationId opn),
      t_description =
        (if truthy_str (summary opn) then or_empty (summary opn)
         else if truthy_str (op_description opn) then or_empty (op_description opn)
         else ''Perform '' @ toUpperCase method @ '' on '' @ path),
      inputSchema = build_input_schema opn\<rparr>"

text \<open>The tool pushed for a visited operation, given as (method, path, operation).\<close>

definition tool_of :: "string \<times> string \<times> operation \<Rightarrow> tool" where
  "tool_of visited = (case visited of (method, path, opn) \<Rightarrow> build_tool method path opn)"

text \<open>The operations of a document in the order the two nested loops visit them.\<close>

fun item_operations :: "string \<Rightarrow> path_item \<Rightarrow> (string \<times> string \<times> operation) list" where
  "item_operations path [] = []"
| "item_operations path ((method, v) # rest) =
     (if method \<in> set HttpMethods
      then (case v of
              None \<Rightarrow> item_operations path rest
            | Some opn \<Rightarrow> (method, path, opn) # item_operations path rest)
      else item_operations path rest)"

fun path_operations ::
  "(string \<times> path_item option) list \<Rightarrow> (string \<times> string \<times> operation) list" where
  "path_operations [] = []"
| "path_operations ((path, None) # rest) = path_operations rest"
| "path_operations ((path, Some pathItem) # rest) =
     item_operations path pathItem @ path_operations rest"

text \<open>
  The converter and the index builder walk the document with the same two loops and the
  same three tests (no path item, a key that is no HTTP method, no operation), so the
  walk is written once. Without a path map both return at once.
\<close>

definition operations :: "document \<Rightarrow> (string \<times> string \<times> operation) list" where
  "operations apiSpec = (case paths apiSpec of None \<Rightarrow> [] | Some ps \<Rightarrow> path_operations ps)"

text \<open>\<^verbatim>\<open>convertOpenAPIToMcTools\<close>: every operation visited pushes one tool.\<close>

fun push_tools :: "(string \<times> string \<times> operation) list \<Rightarrow> tool list \<Rightarrow> tool list" where
  "push_tools [] tools = tools"
| "push_tools ((method, path, opn) # rest) tools =
     push_tools rest (tools @ [build_tool method path opn])"

definition convertOpenAPIToMcTools :: "document \<Rightarrow> tool list" where
  "convertOpenAPIToMcTools apiSpec = push_tools (operations apiSpec) []"

section \<open>Operation Index\<close>

record mapping =
  m_path :: string
  m_method :: string
  m_operation :: operation
  toolDefinition :: tool

text \<open>\<^verbatim>\<open>new Map(tools.map(t => [t.name, t]))\<close>: a later entry replaces an earlier one.\<close>

fun tool_map :: "tool list \<Rightarrow> (string \<rightharpoonup> tool) \<Rightarrow> (string \<rightharpoonup> tool)" where
  "tool_map [] m = m"
| "tool_map (t # ts) m = tool_map ts (m(name t \<mapsto> t))"

text \<open>One pass of the inner loop of \<^verbatim>\<open>buildOperationMap\<close> that reaches an operation.\<close>

definition index_operation ::
  "(string \<rightharpoonup> tool) \<Rightarrow> string \<times> string \<times> operation
     \<Rightarrow> (string \<rightharpoonup> mapping) \<Rightarrow> (string \<rightharpoonup> mapping)" where
  "index_operation toolMapByName visited m =
     (case visited of
        (method, path, opn) \<Rightarrow>
          (let toolName = indexToolName method path (operationId opn)
           in (case toolMapByName toolName of
                 Some td \<Rightarrow>
                   m(toolName \<mapsto>
                      \<lparr>m_path = path, m_method = method, m_operation = opn,
                       toolDefinition = td\<rparr>)
               | None \<Rightarrow> m)))"

fun index_operations ::
  "(string \<rightharpoonup> tool) \<Rightarrow> (string \<times> string \<times> operation) list
     \<Rightarrow> (string \<rightharpoonup> mapping) \<Rightarrow> (string \<rightharpoonup> mapping)" where
  "index_operations toolMapByName [] m = m"
| "index_operations toolMapByName (visited # rest) m =
     index_operations toolMapByName rest (index_operation toolMapByName visited m)"

definition buildOperationMap :: "document \<Rightarrow> tool list \<Rightarrow> (string \<rightharpoonup> mapping)" where
  "buildOperationMap apiSpec tools =
     index_operations (tool_map tools Map.empty) (operations apiSpec) Map.empty"

section \<open>Dispatch Engine\<close>

subsection \<open>The platform\<close>

text \<open>
  The handler calls into the JavaScript runtime and into node-fetch. Each of these calls
  can throw: \<^verbatim>\<open>String\<close> and \<^verbatim>\<open>Headers.set\<close> a \<^verbatim>\<open>TypeError\<close>,
  \<^verbatim>\<open>encodeURIComponent\<close> a \<^verbatim>\<open>URIError\<close>, and the handler catches only
  what \<^verbatim>\<open>JSON.stringify\<close>, \<^verbatim>\<open>fetch\<close>, \<^verbatim>\<open>response.text\<close> and
  \<^verbatim>\<open>JSON.parse\<close> throw. What the calls compute, the names and values that
  \<^verbatim>\<open>Headers.set\<close> refuses and the order in which it keeps its entries are
  parameters of the model: a call gives its result, or the message of the error it
  throws.
\<close>

record http_request =
  rq_url :: string
  rq_method :: string
  rq_headers :: "(string \<times> string) list"
  rq_body :: "string option"

record http_response =
  rs_status :: nat
  rs_statusText :: string
  rs_headers :: "(string \<times> string) list"
  rs_text :: "string + string"

record platform =
  toStr :: "jsvalue \<Rightarrow> string + string"
  encodeURIComponent :: "string \<Rightarrow> string + string"
  headers_set :: "(string \<times> string) list \<Rightarrow> string \<Rightarrow> string \<Rightarrow> string + (string \<times> string) list"
  query_toString :: "(string \<times> string) list \<Rightarrow> string"
  JSON_stringify :: "jsvalue \<Rightarrow> string + string"
  fetch :: "http_request \<Rightarrow> string + http_response"
  JSON_pretty :: "string \<Rightarrow> string option"
  headers_json :: "(string \<times> string) list \<Rightarrow> string"

text \<open>
  \<^verbatim>\<open>toStr\<close> is \<^verbatim>\<open>String(v)\<close>; \<^verbatim>\<open>headers_set\<close> is
  \<^verbatim>\<open>headers.set(name, value)\<close> on the entries of the headers object, which the
  handler never reads; \<^verbatim>\<open>query_toString\<close> is the serialization of
  the query entries; \<^verbatim>\<open>JSON_stringify\<close> gives the text, or the message of the error
  thrown; \<^verbatim>\<open>fetch\<close> gives the response, or the message of the network error;
  \<^verbatim>\<open>rs_text\<close> is what reading the body gives; \<^verbatim>\<open>JSON_pretty\<close> is
  \<^verbatim>\<open>JSON.stringify(JSON.parse(text), null, 2)\<close>, nothing when the parse throws;
  \<^verbatim>\<open>headers_json\<close> is \<^verbatim>\<open>JSON.stringify(Object.fromEntries(entries), null, 2)\<close>.
\<close>

text \<open>The getter \<^verbatim>\<open>ok\<close> of a node-fetch response: the status is in 200..299.\<close>

definition rs_ok :: "http_response \<Rightarrow> bool" where
  "rs_ok r = (200 \<le> rs_status r \<and> rs_status r < 300)"

text \<open>
  \<^verbatim>\<open>URLSearchParams\<close> as its list of entries. \<^verbatim>\<open>append\<close> adds an entry at the
  end; \<^verbatim>\<open>set\<close> gives the first entry of that name the new value and removes the
  others of that name, or appends when there is none.
\<close>

definition qp_append :: "(string \<times> string) list \<Rightarrow> string \<Rightarrow> string \<Rightarrow> (string \<times> string) list" where
  "qp_append q k v = q @ [(k, v)]"

fun qp_set :: "(string \<times> string) list \<Rightarrow> string \<Rightarrow> string \<Rightarrow> (string \<times> string) list" where
  "qp_set [] k v = [(k, v)]"
| "qp_set ((k', v') # q) k v =
     (if k' = k then (k, v) # filter (\<lambda>e. fst e \<noteq> k) q else (k', v') # qp_set q k v)"

text \<open>\<^verbatim>\<open>response.headers.get(name)\<close>: the names of a response are in lower case.\<close>

definition headers_get :: "(string \<times> string) list \<Rightarrow> string \<Rightarrow> string option" where
  "headers_get hs k = map_of hs (toLowerCase k)"

text \<open>
  \<^verbatim>\<open>s.replace(pattern, replacement)\<close> with a string pattern that is not empty: the
  first occurrence is replaced. The replacement is a result of
  \<^verbatim>\<open>encodeURIComponent\<close>, which escapes the dollar sign, so it is inserted as it
  is.
\<close>

fun replace_first :: "string \<Rightarrow> string \<Rightarrow> string \<Rightarrow> string" where
  "replace_first pat rep [] = []"
| "replace_first pat rep (c # cs) =
     (if take (length pat) (c # cs) = pat then rep @ drop (length pat) (c # cs)
      else c # replace_first pat rep cs)"

text \<open>\<^verbatim>\<open>s.includes(t)\<close>.\<close>

fun str_includes :: "string \<Rightarrow> string \<Rightarrow> bool" where
  "str_includes [] t = (t = [])"
| "str_includes (c # cs) t = (take (length t) (c # cs) = t \<or> str_includes cs t)"

text \<open>A status number in a template literal: its decimal digits.\<close>

fun decimal :: "nat \<Rightarrow> string" where
  "decimal n =
     (if n < 10 then [char_of (48 + n)]
      else decimal (n div 10) @ [char_of (48 + n mod 10)])"

subsection \<open>Errors and results\<close>

datatype error_code = MethodNotFound | InvalidParams | InternalError

datatype error = McpError error_code string | Error string | TypeError string | URIError string

record call_result =
  content :: "string list"
  isError :: bool

definition quote :: string where
  "quote = [CHR 0x27]"

definition newline :: string where
  "newline = [CHR 0x0A]"

definition missing_parameter :: "string \<Rightarrow> string \<Rightarrow> error" where
  "missing_parameter paramName toolName =
     McpError InvalidParams
       (''Missing required parameter '' @ quote @ paramName @ quote
          @ '' for tool '' @ quote @ toolName @ quote @ ''.'')"

definition missing_body :: "string \<Rightarrow> error" where
  "missing_body toolName =
     McpError InvalidParams
       (''Missing required requestBody for tool '' @ quote @ toolName @ quote @ ''.'')"

definition stringify_failed :: "string \<Rightarrow> string \<Rightarrow> error" where
  "stringify_failed toolName message =
     McpError InvalidParams
       (''Failed to stringify requestBody for tool '' @ quote @ toolName @ quote
          @ '': '' @ message)"

definition unsupported_content_type :: "string \<Rightarrow> error" where
  "unsupported_content_type toolName =
     McpError InvalidParams
       (''Unsupported request body content type for tool '' @ quote @ toolName @ quote
          @ ''. Only application/json is supported.'')"

definition tool_not_found :: "string \<Rightarrow> error" where
  "tool_not_found toolName =
     McpError MethodNotFound (''Tool '' @ quote @ toolName @ quote @ '' not found.'')"

definition request_failed :: "string \<Rightarrow> error" where
  "request_failed message = McpError InternalError (''API request failed: '' @ message)"

subsection \<open>Parameter processing\<close>

record req_state =
  processedPath :: string
  queryParams :: "(string \<times> string) list"
  headers :: "(string \<times> string) list"

text \<open>
  \<^verbatim>\<open>argValue.forEach(val => queryParams.append(param.name, String(val)))\<close>: the
  first \<^verbatim>\<open>String\<close> that throws ends the loop and the handler.
\<close>

fun append_each ::
  "platform \<Rightarrow> string \<Rightarrow> jsvalue list \<Rightarrow> (string \<times> string) list
     \<Rightarrow> error + (string \<times> string) list" where
  "append_each pf k [] q = Inr q"
| "append_each pf k (val # vals) q =
     (case toStr pf val of
        Inl message \<Rightarrow> Inl (TypeError message)
      | Inr text \<Rightarrow> append_each pf k vals (qp_append q k text))"

text \<open>The \<^verbatim>\<open>switch (param.in)\<close> for an argument that is present.\<close>

definition place_argument :: "platform \<Rightarrow> param \<Rightarrow> jsvalue \<Rightarrow> req_state \<Rightarrow> error + req_state" where
  "place_argument pf p argValue st =
     (if p_in p = ''path'' then
        (case toStr pf argValue of
           Inl message \<Rightarrow> Inl (TypeError message)
         | Inr text \<Rightarrow>
             (case encodeURIComponent pf text of
                Inl message \<Rightarrow> Inl (URIError message)
              | Inr encoded \<Rightarrow>
                  Inr (st\<lparr>processedPath :=
                            replace_first (''{'' @ p_name p @ ''}'') encoded
                              (processedPath st)\<rparr>)))
      else if p_in p = ''query'' then
        (case argValue of
           JArr vals \<Rightarrow>
             (case append_each pf (p_name p) vals (queryParams st) of
                Inl e \<Rightarrow> Inl e
              | Inr q \<Rightarrow> Inr (st\<lparr>queryParams := q\<rparr>))
         | _ \<Rightarrow>
             (case toStr pf argValue of
                Inl message \<Rightarrow> Inl (TypeError message)
              | Inr text \<Rightarrow>
                  Inr (st\<lparr>queryParams := qp_set (queryParams st) (p_name p) text\<rparr>)))
      else if p_in p = ''header'' then
        (case toStr pf argValue of
           Inl message \<Rightarrow> Inl (TypeError message)
         | Inr text \<Rightarrow>
             (case headers_set pf (headers st) (p_name p) text of
                Inl message \<Rightarrow> Inl (TypeError message)
              | Inr hs \<Rightarrow> Inr (st\<lparr>headers := hs\<rparr>)))
      else Inr st)"

text \<open>
  The body of the loop over \<^verbatim>\<open>operation.parameters\<close> in the handler. The argument
  bag is the plain object of the request, or \<^verbatim>\<open>{}\<close>, given by its own
  properties; \<^verbatim>\<open>args[param.name]\<close> is a property read on it.
\<close>

definition process_param ::
  "platform \<Rightarrow> string \<Rightarrow> (string \<rightharpoonup> jsvalue) \<Rightarrow> param_or_ref \<Rightarrow> req_state \<Rightarrow> error + req_state" where
  "process_param pf toolName args pr st =
     (case pr of
        ParamRef r \<Rightarrow> Inr st
      | Param p \<Rightarrow>
          (let argValue = get_property args (p_name p)
           in if truthy_flag (p_required p) \<and> argValue = None
              then Inl (missing_parameter (p_name p) toolName)
              else (case argValue of
                      None \<Rightarrow> Inr st
                    | Some v \<Rightarrow> place_argument pf p v st)))"

fun process_params ::
  "platform \<Rightarrow> string \<Rightarrow> (string \<rightharpoonup> jsvalue) \<Rightarrow> param_or_ref list \<Rightarrow> req_state \<Rightarrow> error + req_state" where
  "process_params pf toolName args [] st = Inr st"
| "process_params pf toolName args (pr # prs) st =
     (case process_param pf toolName args pr st of
        Inl e \<Rightarrow> Inl e
      | Inr st' \<Rightarrow> process_params pf toolName args prs st')"

subsection \<open>Request body\<close>

text \<open>
  The request body section of the handler, on the headers; it gives the headers and the
  body text of the request. The \<^verbatim>\<open>Content-Type\<close> header is set before the
  \<^verbatim>\<open>try\<close> around \<^verbatim>\<open>JSON.stringify\<close>.
\<close>

definition process_body ::
  "platform \<Rightarrow> string \<Rightarrow> (string \<rightharpoonup> jsvalue) \<Rightarrow> body_or_ref option
     \<Rightarrow> (string \<times> string) list \<Rightarrow> error + (string \<times> string) list \<times> string option" where
  "process_body pf toolName args rb hs =
     (case rb of
        None \<Rightarrow> Inr (hs, None)
      | Some (BodyRef r) \<Rightarrow> Inr (hs, None)
      | Some (Body b) \<Rightarrow>
          (let requestBodyArg = get_property args ''requestBody''
           in if truthy_flag (rb_required b) \<and> requestBodyArg = None
              then Inl (missing_body toolName)
              else (case requestBodyArg of
                      None \<Rightarrow> Inr (hs, None)
                    | Some v \<Rightarrow>
                        (case json_content b of
                           Some jsonContent \<Rightarrow>
                             (case headers_set pf hs ''Content-Type'' ''application/json'' of
                                Inl message \<Rightarrow> Inl (TypeError message)
                              | Inr hs' \<Rightarrow>
                                  (case JSON_stringify pf v of
                                     Inl message \<Rightarrow> Inl (stringify_failed toolName message)
                                   | Inr text \<Rightarrow> Inr (hs', Some text)))
                         | None \<Rightarrow> Inl (unsupported_content_type toolName)))))"

subsection \<open>Building the request\<close>

text \<open>
  The parameter section of the handler: the loop runs from the raw path, no query entry
  and the entry of \<^verbatim>\<open>new Headers({'Accept': 'application/json'})\<close>; it is skipped
  when the operation has no parameter list.
\<close>

definition initial_state :: "mapping \<Rightarrow> req_state" where
  "initial_state m =
     \<lparr>processedPath = m_path m, queryParams = [],
      headers = [(''accept'', ''application/json'')]\<rparr>"

definition process_parameters ::
  "platform \<Rightarrow> string \<Rightarrow> (string \<rightharpoonup> jsvalue) \<Rightarrow> mapping \<Rightarrow> error + req_state" where
  "process_parameters pf toolName args m =
     (case parameters (m_operation m) of
        None \<Rightarrow> Inr (initial_state m)
      | Some ps \<Rightarrow> process_params pf toolName args ps (initial_state m))"

text \<open>Everything the handler does between resolving the tool and calling \<^verbatim>\<open>fetch\<close>.\<close>

definition build_request ::
  "platform \<Rightarrow> string \<Rightarrow> string \<Rightarrow> (string \<rightharpoonup> jsvalue) \<Rightarrow> mapping \<Rightarrow> error + http_request" where
  "build_request pf baseUrl toolName args m =
     (case process_parameters pf toolName args m of
        Inl e \<Rightarrow> Inl e
      | Inr st \<Rightarrow>
          (case process_body pf toolName args (requestBody (m_operation m)) (headers st) of
             Inl e \<Rightarrow> Inl e
           | Inr (hs, body) \<Rightarrow>
               (let qs = query_toString pf (queryParams st)
                in Inr \<lparr>rq_url = baseUrl @ processedPath st
                                  @ (if qs \<noteq> [] then ''?'' @ qs else []),
                        rq_method = toUpperCase (m_method m),
                        rq_headers = hs,
                        rq_body = body\<rparr>)))"

subsection \<open>Response normalization\<close>

definition status_line :: "http_response \<Rightarrow> string" where
  "status_line r = decimal (rs_status r) @ '' '' @ rs_statusText r"

definition normalize_response :: "platform \<Rightarrow> http_response \<Rightarrow> call_result" where
  "normalize_response pf response =
     (case rs_text response of
        Inl message \<Rightarrow>
          \<lparr>content = [''API call successful ('' @ status_line response
                         @ '') but failed to read response body: '' @ message],
           isError = (\<not> rs_ok response)\<rparr>
      | Inr responseBodyText \<Rightarrow>
          (let contentType = headers_get (rs_headers response) ''content-type'';
               formattedOutput =
                 (if truthy_str contentType
                     \<and> str_includes (or_empty contentType) ''application/json''
                     \<and> responseBodyText \<noteq> []
                  then (case JSON_pretty pf responseBodyText of
                          Some pretty \<Rightarrow> pretty
                        | None \<Rightarrow> responseBodyText)
                  else responseBodyText);
               resultText = ''Status: '' @ status_line response @ newline
                 @ ''Headers:'' @ newline @ headers_json pf (rs_headers response)
                 @ newline @ newline @ ''Body:'' @ newline @ formattedOutput
           in \<lparr>content = [resultText], isError = (\<not> rs_ok response)\<rparr>))"

subsection \<open>The handler\<close>

text \<open>
  \<^verbatim>\<open>createCallToolHandler\<close> fills the module variable \<^verbatim>\<open>operationMap\<close> when it
  is still null and leaves it alone otherwise; the function gives the variable's new
  value.
\<close>

definition createCallToolHandler ::
  "(string \<rightharpoonup> mapping) option \<Rightarrow> document \<Rightarrow> tool list \<Rightarrow> (string \<rightharpoonup> mapping) option" where
  "createCallToolHandler operationMap apiSpec tools =
     (case operationMap of
        None \<Rightarrow> Some (buildOperationMap apiSpec tools)
      | Some m \<Rightarrow> Some m)"

text \<open>
  The handler it returns, on the tool name and the arguments of the request. Its value is
  the list of HTTP requests issued and the outcome: an error thrown or a result returned.
\<close>

definition callTool ::
  "platform \<Rightarrow> (string \<rightharpoonup> mapping) option \<Rightarrow> string \<Rightarrow> string
     \<Rightarrow> (string \<rightharpoonup> jsvalue) option \<Rightarrow> http_request list \<times> (error + call_result)" where
  "callTool pf operationMap baseUrl toolName arguments =
     (let args = (case arguments of None \<Rightarrow> Map.empty | Some a \<Rightarrow> a)
      in (case operationMap of
            None \<Rightarrow> ([], Inl (Error ''Operation map not initialized''))
          | Some opMap \<Rightarrow>
              (case opMap toolName of
                 None \<Rightarrow> ([], Inl (tool_not_found toolName))
               | Some m \<Rightarrow>
                   (case build_request pf baseUrl toolName args m of
                      Inl e \<Rightarrow> ([], Inl e)
                    | Inr rq \<Rightarrow>
                        (case fetch pf rq of
                           Inl message \<Rightarrow> ([rq], Inl (request_failed message))
                         | Inr response \<Rightarrow> ([rq], Inr (normalize_response pf response)))))))"

section \<open>Notions used in the statements\<close>

text \<open>The parameter list of an operation, empty when it has none.\<close>

definition params_of :: "operation \<Rightarrow> param_or_ref list" where
  "params_of opn = (case parameters opn of None \<Rightarrow> [] | Some ps \<Rightarrow> ps)"

text \<open>
  A parameter that is marked required and under whose name the argument bag gives
  \<^verbatim>\<open>undefined\<close>.
\<close>

definition missing_required :: "(string \<rightharpoonup> jsvalue) \<Rightarrow> param_or_ref \<Rightarrow> bool" where
  "missing_required args pr =
     (case pr of
        ParamRef r \<Rightarrow> False
      | Param p \<Rightarrow> truthy_flag (p_required p) \<and> get_property args (p_name p) = None)"

text \<open>A query-located parameter of a given name.\<close>

definition query_named :: "string \<Rightarrow> param_or_ref \<Rightarrow> bool" where
  "query_named k pr =
     (case pr of ParamRef r \<Rightarrow> False | Param p \<Rightarrow> p_in p = ''query'' \<and> p_name p = k)"

text \<open>A parameter of a given name, wherever it is located.\<close>

definition param_named :: "string \<Rightarrow> param_or_ref \<Rightarrow> bool" where
  "param_named k pr = (case pr of ParamRef r \<Rightarrow> False | Param p \<Rightarrow> p_name p = k)"

text \<open>The query entries of a given name, in order.\<close>

definition entries_named :: "string \<Rightarrow> (string \<times> string) list \<Rightarrow> (string \<times> string) list" where
  "entries_named k q = filter (\<lambda>e. fst e = k) q"

text \<open>The message an error carries.\<close>

definition error_message :: "error \<Rightarrow> string" where
  "error_message e =
     (case e of
        McpError c msg \<Rightarrow> msg
      | Error msg \<Rightarrow> msg
      | TypeError msg \<Rightarrow> msg
      | URIError msg \<Rightarrow> msg)"

text \<open>The property names and the required names of an input schema.\<close>

definition property_names :: "js_schema \<Rightarrow> string list" where
  "property_names s = (case js_properties s of None \<Rightarrow> [] | Some ps \<Rightarrow> map fst ps)"

definition required_names :: "js_schema \<Rightarrow> string list" where
  "required_names s = (case js_required (attrs s) of None \<Rightarrow> [] | Some r \<Rightarrow> r)"

section \<open>Sample data\<close>

text \<open>The inputs at which the theorems below are instantiated and evaluated.\<close>

definition no_attrs :: oa_attrs where
  "no_attrs = \<lparr>oa_type = None, oa_format = None, oa_description = None, oa_default = None,
     oa_enum = None, oa_required = None\<rparr>"

definition plain_operation :: operation where
  "plain_operation = \<lparr>operationId = None, summary = None, op_description = None,
     parameters = None, requestBody = None\<rparr>"

definition plain_param :: "string \<Rightarrow> string \<Rightarrow> param" where
  "plain_param k loc = \<lparr>p_name = k, p_in = loc, p_required = None, p_description = None,
     p_schema = None\<rparr>"

text \<open>
  A platform for the examples. Its \<^verbatim>\<open>String\<close> is right on strings, booleans and
  null, its \<^verbatim>\<open>encodeURIComponent\<close> and its query serialization on texts that need
  no escaping, its \<^verbatim>\<open>JSON.stringify\<close> on strings that need no escaping; the
  examples use no other value. Its \<^verbatim>\<open>Headers.set\<close> refuses a value with a control
  character other than the tab, as node-fetch does, and keeps the names in lower case.
  Its network answers every request with status 404 and a body that cannot be read.
\<close>

fun sample_toStr :: "jsvalue \<Rightarrow> string" where
  "sample_toStr (JStr s) = s"
| "sample_toStr JNull = ''null''"
| "sample_toStr (JBool b) = (if b then ''true'' else ''false'')"
| "sample_toStr v = ''[object Object]''"

definition header_value_char :: "char \<Rightarrow> bool" where
  "header_value_char c =
     (let n = (of_char c :: nat) in n = 9 \<or> (32 \<le> n \<and> n < 127) \<or> 128 \<le> n)"

fun put_header :: "(string \<times> string) list \<Rightarrow> string \<Rightarrow> string \<Rightarrow> (string \<times> string) list" where
  "put_header [] k v = [(k, v)]"
| "put_header ((k', v') # hs) k v =
     (if k' = k then (k, v) # hs else (k', v') # put_header hs k v)"

definition sample_headers_set ::
  "(string \<times> string) list \<Rightarrow> string \<Rightarrow> string \<Rightarrow> string + (string \<times> string) list" where
  "sample_headers_set hs k v =
     (if list_all header_value_char v then Inr (put_header hs (toLowerCase k) v)
      else Inl (''Invalid character in header content ['' @ [CHR 0x22] @ k @ [CHR 0x22] @ '']''))"

definition sample_response :: http_response where
  "sample_response = \<lparr>rs_status = 404, rs_statusText = ''Not Found'',
     rs_headers = [(''content-type'', ''application/json'')],
     rs_text = Inl ''Premature close''\<rparr>"

definition sample_platform :: platform where
  "sample_platform =
     \<lparr>toStr = (\<lambda>v. Inr (sample_toStr v)),
      encodeURIComponent = (\<lambda>s. Inr s),
      headers_set = sample_headers_set,
      query_toString = (\<lambda>q. join ''&'' (map (\<lambda>e. fst e @ ''='' @ snd e) q)),
      JSON_stringify = (\<lambda>v. Inr ([CHR 0x22] @ sample_toStr v @ [CHR 0x22])),
      fetch = (\<lambda>rq. Inr sample_response),
      JSON_pretty = (\<lambda>t. Some t),
      headers_json = (\<lambda>hs. ''{}'')\<rparr>"

text \<open>The same platform with a network that answers 200 and a readable body.\<close>

definition ok_response :: http_response where
  "ok_response = \<lparr>rs_status = 200, rs_statusText = ''OK'',
     rs_headers = [(''content-type'', ''text/plain'')], rs_text = Inr ''done''\<rparr>"

definition ok_platform :: platform where
  "ok_platform = sample_platform\<lparr>fetch := (\<lambda>rq. Inr ok_response)\<rparr>"


text \<open>Two operations whose identifiers differ and sanitize to the same name.\<close>

definition list_pets :: operation where
  "list_pets = plain_operation\<lparr>operationId := Some ''list-pets'', summary := Some ''All pets''\<rparr>"

definition list_animals :: operation where
  "list_animals =
     plain_operation\<lparr>operationId := Some ''list_pets'', summary := Some ''All animals''\<rparr>"

definition collide_doc :: document where
  "collide_doc =
     \<lparr>paths = Some [(''/pets'', Some [(''get'', Some list_pets)]),
                    (''/animals'', Some [(''get'', Some list_animals)])]\<rparr>"

text \<open>An operation with two required path parameters.\<close>

definition owner_param :: param where
  "owner_param = (plain_param ''owner'' ''path'')\<lparr>p_required := Some True\<rparr>"

definition repo_param :: param where
  "repo_param = (plain_param ''repo'' ''path'')\<lparr>p_required := Some True\<rparr>"

definition show_repo :: operation where
  "show_repo =
     plain_operation
       \<lparr>operationId := Some ''show'',
        parameters := Some [Param owner_param, Param repo_param]\<rparr>"

definition repo_doc :: document where
  "repo_doc = \<lparr>paths = Some [(''/repos/{owner}/{repo}'', Some [(''get'', Some show_repo)])]\<rparr>"

definition repo_index :: "(string \<rightharpoonup> mapping) option" where
  "repo_index = createCallToolHandler None repo_doc (convertOpenAPIToMcTools repo_doc)"

definition repo_args :: "string \<rightharpoonup> jsvalue" where
  "repo_args = [''owner'' \<mapsto> JStr ''octocat'', ''repo'' \<mapsto> JStr ''hello'']"

definition repo_request :: http_request where
  "repo_request = \<lparr>rq_url = ''https://api/repos/octocat/hello'', rq_method = ''GET'',
     rq_headers = [(''accept'', ''application/json'')], rq_body = None\<rparr>"

definition repo_mapping :: mapping where
  "repo_mapping =
     \<lparr>m_path = ''/repos/{owner}/{repo}'', m_method = ''get'', m_operation = show_repo,
      toolDefinition = build_tool ''get'' ''/repos/{owner}/{repo}'' show_repo\<rparr>"

text \<open>An operation with a required path parameter and a request body that is not JSON.\<close>

definition upload_body :: request_body where
  "upload_body = \<lparr>rb_description = None,
     rb_content = Some [(''text/plain'', \<lparr>mt_schema = None\<rparr>)], rb_required = None\<rparr>"

definition upload_file :: operation where
  "upload_file =
     plain_operation
       \<lparr>operationId := Some ''upload'',
        parameters := Some [Param ((plain_param ''id'' ''path'')\<lparr>p_required := Some True\<rparr>)],
        requestBody := Some (Body upload_body)\<rparr>"

definition upload_mapping :: mapping where
  "upload_mapping =
     \<lparr>m_path = ''/files/{id}'', m_method = ''post'', m_operation = upload_file,
      toolDefinition = build_tool ''post'' ''/files/{id}'' upload_file\<rparr>"

definition upload_doc :: document where
  "upload_doc = \<lparr>paths = Some [(''/files/{id}'', Some [(''post'', Some upload_file)])]\<rparr>"

definition upload_index :: "(string \<rightharpoonup> mapping) option" where
  "upload_index = createCallToolHandler None upload_doc (convertOpenAPIToMcTools upload_doc)"

text \<open>An operation with two query parameters and no identifier.\<close>

definition search_pets :: operation where
  "search_pets =
     plain_operation
       \<lparr>parameters := Some [Param (plain_param ''tag'' ''query''),
                            Param (plain_param ''q'' ''query'')]\<rparr>"

definition search_mapping :: mapping where
  "search_mapping =
     \<lparr>m_path = ''/pets/search'', m_method = ''get'', m_operation = search_pets,
      toolDefinition = build_tool ''get'' ''/pets/search'' search_pets\<rparr>"

definition search_args :: "string \<rightharpoonup> jsvalue" where
  "search_args = [''tag'' \<mapsto> JArr [JStr ''cat'', JStr ''small''], ''q'' \<mapsto> JStr ''tom'']"

definition search_request :: http_request where
  "search_request =
     \<lparr>rq_url = ''https://api/pets/search?tag=cat&tag=small&q=tom'', rq_method = ''GET'',
      rq_headers = [(''accept'', ''application/json'')], rq_body = None\<rparr>"

definition search_doc :: document where
  "search_doc = \<lparr>paths = Some [(''/pets/search'', Some [(''get'', Some search_pets)])]\<rparr>"

definition search_index :: "(string \<rightharpoonup> mapping) option" where
  "search_index = createCallToolHandler None search_doc (convertOpenAPIToMcTools search_doc)"

text \<open>An operation whose only parameter is required and has no schema.\<close>

definition token_param :: param where
  "token_param = (plain_param ''token'' ''header'')\<lparr>p_required := Some True\<rparr>"

definition refresh :: operation where
  "refresh = plain_operation\<lparr>operationId := Some ''refresh'', parameters := Some [Param token_param]\<rparr>"

definition refresh_mapping :: mapping where
  "refresh_mapping =
     \<lparr>m_path = ''/session'', m_method = ''put'', m_operation = refresh,
      toolDefinition = build_tool ''put'' ''/session'' refresh\<rparr>"

definition refresh_doc :: document where
  "refresh_doc = \<lparr>paths = Some [(''/session'', Some [(''put'', Some refresh)])]\<rparr>"

definition refresh_index :: "(string \<rightharpoonup> mapping) option" where
  "refresh_index = createCallToolHandler None refresh_doc (convertOpenAPIToMcTools refresh_doc)"







text \<open>
  An operation with an optional header parameter before a required parameter without a
  schema, and a bag whose header value holds a line feed.
\<close>

definition trace_param :: param where
  "trace_param = plain_param ''x-trace'' ''header''"

definition traced_refresh :: operation where
  "traced_refresh =
     plain_operation\<lparr>operationId := Some ''refresh'',
                      parameters := Some [Param trace_param, Param token_param]\<rparr>"

definition traced_doc :: document where
  "traced_doc = \<lparr>paths = Some [(''/session'', Some [(''put'', Some traced_refresh)])]\<rparr>"

definition traced_index :: "(string \<rightharpoonup> mapping) option" where
  "traced_index = createCallToolHandler None traced_doc (convertOpenAPIToMcTools traced_doc)"

definition traced_args :: "string \<rightharpoonup> jsvalue" where
  "traced_args = [''x-trace'' \<mapsto> JStr [CHR ''a'', CHR 0x0A, CHR ''b'']]"

text \<open>An operation whose required parameter has a name that every plain object inherits.\<close>

definition constructor_param :: param where
  "constructor_param = (plain_param ''constructor'' ''query'')\<lparr>p_required := Some True\<rparr>"

definition build_thing :: operation where
  "build_thing =
     plain_operation\<lparr>operationId := Some ''build'', parameters := Some [Param constructor_param]\<rparr>"

definition build_doc :: document where
  "build_doc = \<lparr>paths = Some [(''/things'', Some [(''get'', Some build_thing)])]\<rparr>"

definition build_index :: "(string \<rightharpoonup> mapping) option" where
  "build_index = createCallToolHandler None build_doc (convertOpenAPIToMcTools build_doc)"

section \<open>Tool names: sanitization and the two derivations\<close>

lemma underscore_is_word_char: "is_word_char CHR ''_''"
  by (simp add: is_word_char_def)

lemma sanitize_twice: "sanitize (sanitize s) = sanitize s"
  by (simp add: sanitize_def underscore_is_word_char)

lemma sanitize_Nil_iff: "sanitize s = [] \<longleftrightarrow> s = []"
  by (simp add: sanitize_def)

lemma index_name_eq: "indexToolName method path ident = generateToolName method path ident"
  by (cases ident) (simp_all add: generateToolName_def indexToolName_def sanitize_Nil_iff)

text \<open>
  Claim C8. Replacing every character outside \<^verbatim>\<open>[A-Za-z0-9_]\<close> by an underscore
  is idempotent: sanitizing a sanitized string gives that string back.
\<close>

theorem sanitize_idempotent: "sanitize (sanitize s) = sanitize s"
  by (rule sanitize_twice)

theorem sanitize_idempotent_witness:
  "sanitize ''show Pet-By.Id'' = ''show_Pet_By_Id''
   \<and> sanitize (sanitize ''show Pet-By.Id'') = sanitize ''show Pet-By.Id''"
proof -
  have "sanitize ''show Pet-By.Id'' = ''show_Pet_By_Id''"
    by code_simp
  then show ?thesis
    using sanitize_idempotent [of "''show Pet-By.Id''"] by simp
qed

text \<open>
  Claim C2. For every method, path and optional operation identifier, the name that
  \<^verbatim>\<open>generateToolName\<close> computes equals the name that \<^verbatim>\<open>buildOperationMap\<close>
  recomputes: the first tests the identifier and then sanitizes it, the second sanitizes
  it and then tests the result, and sanitizing keeps the length.
\<close>

theorem tool_name_derivations_agree:
  "generateToolName method path ident = indexToolName method path ident"
  by (simp add: index_name_eq)

theorem tool_name_derivations_agree_witness:
  "generateToolName ''GET'' ''/pets/{id}'' (Some []) = ''get_pets_id''
   \<and> indexToolName ''GET'' ''/pets/{id}'' (Some []) = ''get_pets_id''"
proof -
  have "generateToolName ''GET'' ''/pets/{id}'' (Some []) = ''get_pets_id''"
    by code_simp
  then show ?thesis
    using tool_name_derivations_agree [of "''GET''" "''/pets/{id}''" "Some []"] by simp
qed

section \<open>Name collisions: the catalog and the index\<close>

lemma push_tools_eq: "push_tools ops ts = ts @ map tool_of ops"
  by (induction ops ts rule: push_tools.induct) (simp_all add: tool_of_def)

lemma tool_map_append: "tool_map (xs @ ys) m = tool_map ys (tool_map xs m)"
  by (induction xs arbitrary: m) simp_all

lemma tool_map_other: "list_all (\<lambda>t. name t \<noteq> k) ts \<Longrightarrow> tool_map ts m k = m k"
  by (induction ts arbitrary: m) auto

lemma index_operations_append:
  "index_operations tm (xs @ ys) m = index_operations tm ys (index_operations tm xs m)"
  by (induction xs arbitrary: m) simp_all

lemma index_operation_other:
  "name (tool_of x) \<noteq> k \<Longrightarrow> index_operation tm x m k = m k"
  by (cases x)
     (auto simp: index_operation_def Let_def tool_of_def build_tool_def index_name_eq
           split: option.splits)

lemma index_operations_other:
  "list_all (\<lambda>x. name (tool_of x) \<noteq> k) ops \<Longrightarrow> index_operations tm ops m k = m k"
  by (induction ops arbitrary: m) (simp_all add: index_operation_other)

lemma index_last:
  assumes ops: "operations apiSpec = pre @ (method, path, opn) # post"
    and post: "list_all (\<lambda>x. name (tool_of x) \<noteq> generateToolName method path (operationId opn)) post"
  shows "buildOperationMap apiSpec (convertOpenAPIToMcTools apiSpec)
           (generateToolName method path (operationId opn))
         = Some \<lparr>m_path = path, m_method = method, m_operation = opn,
                 toolDefinition = build_tool method path opn\<rparr>"
proof -
  let ?n = "generateToolName method path (operationId opn)"
  let ?t = "build_tool method path opn"
  let ?tm = "tool_map (convertOpenAPIToMcTools apiSpec) Map.empty"
  have nt: "name ?t = ?n" by (simp add: build_tool_def)
  have post': "list_all (\<lambda>t. name t \<noteq> ?n) (map tool_of post)"
    using post by (simp add: list_all_iff)
  have tools: "convertOpenAPIToMcTools apiSpec = (map tool_of pre @ [?t]) @ map tool_of post"
    by (simp add: convertOpenAPIToMcTools_def push_tools_eq ops tool_of_def)
  have tm: "?tm ?n = Some ?t"
    unfolding tools tool_map_append
    by (simp add: tool_map_other[OF post'] tool_map_append nt)
  have "buildOperationMap apiSpec (convertOpenAPIToMcTools apiSpec) ?n
      = index_operations ?tm ((pre @ [(method, path, opn)]) @ post) Map.empty ?n"
    by (simp add: buildOperationMap_def ops)
  also have "\<dots> = index_operations ?tm (pre @ [(method, path, opn)]) Map.empty ?n"
    unfolding index_operations_append[of ?tm "pre @ [(method, path, opn)]" post]
    by (rule index_operations_other[OF post])
  also have "\<dots> = index_operation ?tm (method, path, opn) (index_operations ?tm pre Map.empty) ?n"
    by (simp add: index_operations_append)
  also have "\<dots> = Some \<lparr>m_path = path, m_method = method, m_operation = opn, toolDefinition = ?t\<rparr>"
    by (simp add: index_operation_def Let_def index_name_eq tm)
  finally show ?thesis .
qed

text \<open>
  When two operations of a document derive the same tool name, the list holds the tool of
  each of them, in the order visited, and the index keeps one entry under the name: the
  last operation that derives it, with that operation's tool.
\<close>

lemma colliding_names_in_list_and_index:
  assumes "operations apiSpec = pre @ (m1, p1, o1) # mid @ (m2, p2, o2) # post"
    and "generateToolName m1 p1 (operationId o1) = generateToolName m2 p2 (operationId o2)"
    and "list_all (\<lambda>x. name (tool_of x) \<noteq> generateToolName m2 p2 (operationId o2)) post"
  shows "convertOpenAPIToMcTools apiSpec
           = map tool_of pre @ build_tool m1 p1 o1 # map tool_of mid
               @ build_tool m2 p2 o2 # map tool_of post
         \<and> name (build_tool m1 p1 o1) = name (build_tool m2 p2 o2)
         \<and> buildOperationMap apiSpec (convertOpenAPIToMcTools apiSpec)
               (name (build_tool m2 p2 o2))
             = Some \<lparr>m_path = p2, m_method = m2, m_operation = o2,
                     toolDefinition = build_tool m2 p2 o2\<rparr>"
proof -
  have tools: "convertOpenAPIToMcTools apiSpec
      = map tool_of pre @ build_tool m1 p1 o1 # map tool_of mid
          @ build_tool m2 p2 o2 # map tool_of post"
    by (simp add: convertOpenAPIToMcTools_def push_tools_eq assms(1) tool_of_def)
  have names: "name (build_tool m1 p1 o1) = name (build_tool m2 p2 o2)"
    using assms(2) by (simp add: build_tool_def)
  have ops: "operations apiSpec = (pre @ (m1, p1, o1) # mid) @ (m2, p2, o2) # post"
    using assms(1) by simp
  have n2: "name (build_tool m2 p2 o2) = generateToolName m2 p2 (operationId o2)"
    by (simp add: build_tool_def)
  have indexed: "buildOperationMap apiSpec (convertOpenAPIToMcTools apiSpec)
      (name (build_tool m2 p2 o2))
      = Some \<lparr>m_path = p2, m_method = m2, m_operation = o2,
              toolDefinition = build_tool m2 p2 o2\<rparr>"
    unfolding n2 by (rule index_last[OF ops assms(3)])
  show ?thesis using tools names indexed by blast
qed

text \<open>
  Claim C1, at an input where the code departs from it. The claim says the published
  list holds exactly one tool under a name that two operations derive, the later one.
  The converter pushes a tool for every operation and never looks at the names already
  pushed: the operations with the identifiers \<^verbatim>\<open>list-pets\<close> and
  \<^verbatim>\<open>list_pets\<close> give a list of two tools that are both named
  \<^verbatim>\<open>list_pets\<close>, although the helper that derives the name is commented as
  generating a unique name. The index resolves the name to the second operation, so the
  first tool of the list is published and every call under its name goes to
  \<^verbatim>\<open>/animals\<close>.
\<close>

theorem catalog_publishes_colliding_names:
  "map name (convertOpenAPIToMcTools collide_doc) = [''list_pets'', ''list_pets'']
   \<and> map t_description (convertOpenAPIToMcTools collide_doc) = [''All pets'', ''All animals'']
   \<and> buildOperationMap collide_doc (convertOpenAPIToMcTools collide_doc) ''list_pets''
       = Some \<lparr>m_path = ''/animals'', m_method = ''get'', m_operation = list_animals,
               toolDefinition = build_tool ''get'' ''/animals'' list_animals\<rparr>"
  by code_simp

section \<open>Dispatch: what the parameter loop and the body section can throw\<close>

lemma get_property_requestBody: "get_property args ''requestBody'' = args ''requestBody''"
  by (cases "args ''requestBody''") (simp_all add: get_property_def Object_prototype_names_def)

lemma process_params_append:
  "process_params pf tn args (xs @ ys) st =
     (case process_params pf tn args xs st of
        Inl e \<Rightarrow> Inl e
      | Inr st' \<Rightarrow> process_params pf tn args ys st')"
  by (induction xs arbitrary: st) (simp_all split: sum.splits)

lemma process_param_missing:
  "truthy_flag (p_required p) \<Longrightarrow> get_property args (p_name p) = None \<Longrightarrow>
   process_param pf tn args (Param p) st = Inl (missing_parameter (p_name p) tn)"
  by (simp add: process_param_def)

lemma process_params_reaches_missing:
  assumes "process_params pf tn args pre st = Inr st1"
    and "truthy_flag (p_required p)" and "get_property args (p_name p) = None"
  shows "process_params pf tn args (pre @ Param p # post) st = Inl (missing_parameter (p_name p) tn)"
  using assms by (simp add: process_params_append process_param_missing)

lemma append_each_error:
  "append_each pf k vals q = Inl e \<Longrightarrow> \<exists>msg. e = TypeError msg"
  by (induction vals arbitrary: q) (auto split: sum.splits)

lemma place_argument_error:
  "place_argument pf p v st = Inl e \<Longrightarrow> (\<exists>msg. e = TypeError msg) \<or> (\<exists>msg. e = URIError msg)"
  by (auto simp: place_argument_def split: if_splits sum.splits jsvalue.splits
        dest: append_each_error)

lemma process_param_error:
  assumes "process_param pf tn args pr st = Inl e"
  shows "(\<exists>q. pr = Param q \<and> truthy_flag (p_required q) \<and> get_property args (p_name q) = None
              \<and> e = missing_parameter (p_name q) tn)
         \<or> (\<exists>msg. e = TypeError msg) \<or> (\<exists>msg. e = URIError msg)"
proof (cases pr)
  case (ParamRef r)
  then show ?thesis using assms by (simp add: process_param_def)
next
  case (Param q)
  show ?thesis
  proof (cases "get_property args (p_name q)")
    case None
    then show ?thesis using assms Param
      by (auto simp: process_param_def Let_def split: if_splits)
  next
    case (Some v)
    then have "place_argument pf q v st = Inl e"
      using assms Param by (simp add: process_param_def Let_def)
    then show ?thesis using place_argument_error by blast
  qed
qed

lemma process_params_error:
  "process_params pf tn args ps st = Inl e \<Longrightarrow>
   (\<exists>q. Param q \<in> set ps \<and> truthy_flag (p_required q) \<and> get_property args (p_name q) = None
         \<and> e = missing_parameter (p_name q) tn)
   \<or> (\<exists>msg. e = TypeError msg) \<or> (\<exists>msg. e = URIError msg)"
proof (induction ps arbitrary: st)
  case Nil
  then show ?case by simp
next
  case (Cons pr ps)
  show ?case
  proof (cases "process_param pf tn args pr st")
    case (Inl e')
    then have "e' = e" using Cons.prems by simp
    then show ?thesis using process_param_error[OF Inl] by auto
  next
    case (Inr st1)
    then have "process_params pf tn args ps st1 = Inl e" using Cons.prems by simp
    from Cons.IH[OF this] show ?thesis by auto
  qed
qed

lemma process_params_fails_on_missing:
  assumes "Param p \<in> set ps" "truthy_flag (p_required p)" "get_property args (p_name p) = None"
  shows "\<exists>e. process_params pf tn args ps st = Inl e"
proof -
  from assms(1) obtain pre post where ps: "ps = pre @ Param p # post"
    by (meson split_list)
  show ?thesis
  proof (cases "process_params pf tn args pre st")
    case (Inl e)
    then show ?thesis by (simp add: ps process_params_append)
  next
    case (Inr st1)
    then show ?thesis
      using assms(2,3) by (simp add: ps process_params_append process_param_missing)
  qed
qed

lemma missing_parameter_inject:
  "missing_parameter a t = missing_parameter b t \<longleftrightarrow> a = b"
  by (simp add: missing_parameter_def)

lemma unsupported_ne_missing_parameter: "unsupported_content_type t \<noteq> missing_parameter k t'"
  by (simp add: unsupported_content_type_def missing_parameter_def)

lemma unsupported_ne_missing_body: "unsupported_content_type t \<noteq> missing_body t'"
  by (simp add: unsupported_content_type_def missing_body_def)

lemma unsupported_ne_stringify_failed: "unsupported_content_type t \<noteq> stringify_failed t' msg"
  by (simp add: unsupported_content_type_def stringify_failed_def)

lemma missing_parameter_ne_missing_body: "missing_parameter k t \<noteq> missing_body t'"
  by (simp add: missing_parameter_def missing_body_def)

lemma missing_parameter_ne_stringify_failed: "missing_parameter k t \<noteq> stringify_failed t' msg"
  by (simp add: missing_parameter_def stringify_failed_def)

lemma missing_parameter_ne_request_failed: "missing_parameter k t \<noteq> request_failed msg"
  by (simp add: missing_parameter_def request_failed_def)

lemma missing_parameter_ne_thrown:
  "missing_parameter k t \<noteq> TypeError msg" "missing_parameter k t \<noteq> URIError msg"
  by (simp_all add: missing_parameter_def)

lemma process_body_error:
  "process_body pf tn args rb hs = Inl e \<Longrightarrow>
   e = missing_body tn \<or> e = unsupported_content_type tn \<or> (\<exists>msg. e = stringify_failed tn msg)
   \<or> (\<exists>msg. e = TypeError msg)"
  by (auto simp: process_body_def Let_def
        split: option.splits body_or_ref.splits if_splits sum.splits)

lemma process_parameters_error:
  "process_parameters pf tn args m = Inl e \<Longrightarrow>
   (\<exists>q. Param q \<in> set (params_of (m_operation m)) \<and> truthy_flag (p_required q)
         \<and> get_property args (p_name q) = None \<and> e = missing_parameter (p_name q) tn)
   \<or> (\<exists>msg. e = TypeError msg) \<or> (\<exists>msg. e = URIError msg)"
  by (cases "parameters (m_operation m)")
     (auto simp: process_parameters_def params_of_def dest: process_params_error)

lemma build_request_error:
  assumes "build_request pf baseUrl tn args m = Inl e"
  shows "(\<exists>k. e = missing_parameter k tn \<and> get_property args k = None) \<or> e = missing_body tn
         \<or> e = unsupported_content_type tn \<or> (\<exists>msg. e = stringify_failed tn msg)
         \<or> (\<exists>msg. e = TypeError msg) \<or> (\<exists>msg. e = URIError msg)"
proof (cases "process_parameters pf tn args m")
  case (Inl e')
  then have "e' = e" using assms by (simp add: build_request_def)
  then show ?thesis using process_parameters_error[OF Inl] by blast
next
  case (Inr st)
  then have "process_body pf tn args (requestBody (m_operation m)) (headers st) = Inl e"
    using assms by (simp add: build_request_def Let_def split: sum.splits prod.splits)
  then show ?thesis using process_body_error by blast
qed

lemma callTool_resolved:
  "opMap tn = Some m \<Longrightarrow>
   callTool pf (Some opMap) baseUrl tn (Some args) =
     (case build_request pf baseUrl tn args m of
        Inl e \<Rightarrow> ([], Inl e)
      | Inr rq \<Rightarrow>
          (case fetch pf rq of
             Inl message \<Rightarrow> ([rq], Inl (request_failed message))
           | Inr response \<Rightarrow> ([rq], Inr (normalize_response pf response))))"
  by (simp add: callTool_def)

lemma callTool_parameter_error:
  "opMap tn = Some m \<Longrightarrow> process_parameters pf tn args m = Inl e \<Longrightarrow>
   callTool pf (Some opMap) baseUrl tn (Some args) = ([], Inl e)"
  by (simp add: callTool_resolved build_request_def)

lemma callTool_body_error:
  "opMap tn = Some m \<Longrightarrow> process_parameters pf tn args m = Inr st \<Longrightarrow>
   process_body pf tn args (requestBody (m_operation m)) (headers st) = Inl e \<Longrightarrow>
   callTool pf (Some opMap) baseUrl tn (Some args) = ([], Inl e)"
  by (simp add: callTool_resolved build_request_def)

lemma callTool_error:
  assumes "opMap tn = Some m"
    and "snd (callTool pf (Some opMap) baseUrl tn (Some args)) = Inl e"
  shows "build_request pf baseUrl tn args m = Inl e \<or> (\<exists>msg. e = request_failed msg)"
  using assms(2) unfolding callTool_resolved[where opMap=opMap and tn=tn, OF assms(1)]
  by (auto split: sum.splits)



section \<open>Missing required parameters\<close>

text \<open>
  Claim C4, as the code has it. The claim says the failure names the required parameter
  that has no value, for every such parameter. The loop throws at the first one it
  meets: with \<^verbatim>\<open>owner\<close> and \<^verbatim>\<open>repo\<close> both required and both absent,
  \<^verbatim>\<open>repo\<close> is a required parameter without a value, and the error names
  \<^verbatim>\<open>owner\<close>; its message does not contain \<^verbatim>\<open>repo\<close>.
\<close>

theorem later_missing_parameter_counterexample:
  "callTool sample_platform repo_index ''https://api'' ''show'' (Some Map.empty)
     = ([], Inl (McpError InvalidParams
                  (''Missing required parameter '' @ quote @ ''owner'' @ quote
                     @ '' for tool '' @ quote @ ''show'' @ quote @ ''.'')))
   \<and> Param repo_param \<in> set (params_of show_repo)
   \<and> missing_required Map.empty (Param repo_param)
   \<and> \<not> str_includes
          (error_message (missing_parameter ''owner'' ''show'')) ''repo''"
  by code_simp

text \<open>
  Claim C4, amended. Take an invocation whose resolved operation has a parameter marked
  required. When \<^verbatim>\<open>args[name]\<close> is \<^verbatim>\<open>undefined\<close> for the name of that
  parameter, the handler throws and issues no HTTP request: it throws the
  \<^verbatim>\<open>InvalidParams\<close> error that names a required parameter whose argument is
  undefined, or what placing an earlier argument throws; when the loop gets as far as
  that parameter (no required parameter before it is undefined and no placement before
  it throws), the error names that parameter and the tool. When \<^verbatim>\<open>args[name]\<close>
  is not undefined, whatever the handler does, it does not throw the error that names
  that parameter.
\<close>

theorem missing_required_parameter_named_first:
  assumes "opMap toolName = Some m"
    and "parameters (m_operation m) = Some (pre @ Param p # post)"
    and "truthy_flag (p_required p)"
  shows "(get_property args (p_name p) = None \<longrightarrow>
            (\<exists>e. callTool pf (Some opMap) baseUrl toolName (Some args) = ([], Inl e)
                  \<and> ((\<exists>q. Param q \<in> set (pre @ Param p # post) \<and> truthy_flag (p_required q)
                            \<and> get_property args (p_name q) = None
                            \<and> e = missing_parameter (p_name q) toolName)
                       \<or> (\<exists>msg. e = TypeError msg) \<or> (\<exists>msg. e = URIError msg)))
            \<and> (process_params pf toolName args pre (initial_state m) = Inr st1 \<longrightarrow>
                  callTool pf (Some opMap) baseUrl toolName (Some args)
                    = ([], Inl (missing_parameter (p_name p) toolName))))
         \<and> (get_property args (p_name p) \<noteq> None \<longrightarrow>
              snd (callTool pf (Some opMap) baseUrl toolName (Some args))
                \<noteq> Inl (missing_parameter (p_name p) toolName))"
proof (intro conjI impI)
  assume none: "get_property args (p_name p) = None"
  have mem: "Param p \<in> set (pre @ Param p # post)" by simp
  from process_params_fails_on_missing[where args=args and p=p, OF mem assms(3) none]
  obtain e where "process_params pf toolName args (pre @ Param p # post) (initial_state m) = Inl e"
    by blast
  then have e: "process_parameters pf toolName args m = Inl e"
    by (simp add: process_parameters_def assms(2))
  have call: "callTool pf (Some opMap) baseUrl toolName (Some args) = ([], Inl e)"
    by (rule callTool_parameter_error[where opMap=opMap and tn=toolName, OF assms(1) e])
  have kind: "(\<exists>q. Param q \<in> set (pre @ Param p # post) \<and> truthy_flag (p_required q)
        \<and> get_property args (p_name q) = None \<and> e = missing_parameter (p_name q) toolName)
      \<or> (\<exists>msg. e = TypeError msg) \<or> (\<exists>msg. e = URIError msg)"
    using process_parameters_error[OF e] by (simp add: params_of_def assms(2))
  show "\<exists>e. callTool pf (Some opMap) baseUrl toolName (Some args) = ([], Inl e)
      \<and> ((\<exists>q. Param q \<in> set (pre @ Param p # post) \<and> truthy_flag (p_required q)
                \<and> get_property args (p_name q) = None
                \<and> e = missing_parameter (p_name q) toolName)
           \<or> (\<exists>msg. e = TypeError msg) \<or> (\<exists>msg. e = URIError msg))"
    using call kind by blast
next
  assume none: "get_property args (p_name p) = None"
    and pre: "process_params pf toolName args pre (initial_state m) = Inr st1"
  have "process_parameters pf toolName args m = Inl (missing_parameter (p_name p) toolName)"
    by (simp add: process_parameters_def assms(2)
          process_params_reaches_missing[OF pre assms(3) none])
  then show "callTool pf (Some opMap) baseUrl toolName (Some args)
      = ([], Inl (missing_parameter (p_name p) toolName))"
    by (rule callTool_parameter_error[where opMap=opMap and tn=toolName, OF assms(1)])
next
  assume some: "get_property args (p_name p) \<noteq> None"
  show "snd (callTool pf (Some opMap) baseUrl toolName (Some args))
      \<noteq> Inl (missing_parameter (p_name p) toolName)"
  proof
    assume "snd (callTool pf (Some opMap) baseUrl toolName (Some args))
      = Inl (missing_parameter (p_name p) toolName)"
    from callTool_error[where opMap=opMap and tn=toolName, OF assms(1) this]
    have "build_request pf baseUrl toolName args m = Inl (missing_parameter (p_name p) toolName)"
      by (auto simp: missing_parameter_ne_request_failed)
    from build_request_error[OF this]
    obtain k where "missing_parameter (p_name p) toolName = missing_parameter k toolName"
      and "get_property args k = None"
      by (auto simp: missing_parameter_ne_missing_body missing_parameter_ne_stringify_failed
            unsupported_ne_missing_parameter[symmetric] missing_parameter_ne_thrown)
    then show False using some by (simp add: missing_parameter_inject)
  qed
qed

theorem missing_required_parameter_named_first_witness:
  "callTool sample_platform repo_index ''https://api'' ''show'' (Some Map.empty)
     = ([], Inl (missing_parameter ''owner'' ''show''))
   \<and> snd (callTool sample_platform repo_index ''https://api'' ''show''
            (Some [''owner'' \<mapsto> JStr ''octocat'']))
       \<noteq> Inl (missing_parameter ''owner'' ''show'')"
proof -
  let ?opMap = "buildOperationMap repo_doc (convertOpenAPIToMcTools repo_doc)"
  have idx: "repo_index = Some ?opMap"
    by (simp add: repo_index_def createCallToolHandler_def)
  have h1: "?opMap ''show'' = Some repo_mapping"
    by code_simp
  have h2: "parameters (m_operation repo_mapping) = Some ([] @ Param owner_param # [Param repo_param])"
    by (simp add: repo_mapping_def show_repo_def plain_operation_def)
  have h3: "truthy_flag (p_required owner_param)"
    by (simp add: owner_param_def plain_param_def truthy_flag_def)
  have n: "p_name owner_param = ''owner''"
    by (simp add: owner_param_def plain_param_def)
  have undefined: "get_property Map.empty ''owner'' = None"
    by code_simp
  have defined: "get_property [''owner'' \<mapsto> JStr ''octocat''] ''owner'' \<noteq> None"
    by (simp add: get_property_def)
  have absent: "callTool sample_platform (Some ?opMap) ''https://api'' ''show'' (Some Map.empty)
      = ([], Inl (missing_parameter (p_name owner_param) ''show''))"
    using missing_required_parameter_named_first
      [where opMap = ?opMap and args = Map.empty and pf = sample_platform
         and baseUrl = "''https://api''" and ?st1.0 = "initial_state repo_mapping",
       OF h1 h2 h3, THEN conjunct1]
      undefined
    by (simp add: n)
  have present: "snd (callTool sample_platform (Some ?opMap) ''https://api'' ''show''
        (Some [''owner'' \<mapsto> JStr ''octocat'']))
      \<noteq> Inl (missing_parameter (p_name owner_param) ''show'')"
    using missing_required_parameter_named_first
      [where opMap = ?opMap and args = "[''owner'' \<mapsto> JStr ''octocat'']"
         and pf = sample_platform and baseUrl = "''https://api''", OF h1 h2 h3,
       THEN conjunct2]
      defined
    by (simp add: n)
  show ?thesis
    using absent present unfolding idx n by (intro conjI)
qed

text \<open>
  A name that every plain object inherits is never undefined in the bag: with a required
  parameter named \<^verbatim>\<open>constructor\<close> and an empty bag, the handler places the
  inherited function as the argument and sends the request.
\<close>

lemma inherited_name_passes_required_check:
  "missing_required Map.empty (Param constructor_param) = False
   \<and> length (fst (callTool sample_platform build_index ''https://api'' ''build''
                    (Some Map.empty))) = 1"
  by code_simp

section \<open>Request bodies that are not JSON\<close>

text \<open>
  Claim C5, as the code has it. The claim says every invocation with a request body that
  is declared without \<^verbatim>\<open>application/json\<close> and a \<^verbatim>\<open>requestBody\<close> argument
  fails with an error of its own kind, apart from the invalid-arguments errors. The
  parameter loop runs before the body section: when the required parameter
  \<^verbatim>\<open>id\<close> is absent the invocation fails with the error of the missing parameter.
  When \<^verbatim>\<open>id\<close> is there, the error thrown for the content type has the code
  \<^verbatim>\<open>InvalidParams\<close>, the one the errors of missing arguments have.
\<close>

theorem content_type_error_counterexample:
  "requestBody upload_file = Some (Body upload_body)
   \<and> json_content upload_body = None
   \<and> callTool sample_platform upload_index ''https://api'' ''upload''
         (Some [''requestBody'' \<mapsto> JStr ''hello''])
       = ([], Inl (McpError InvalidParams
                    (''Missing required parameter '' @ quote @ ''id'' @ quote
                       @ '' for tool '' @ quote @ ''upload'' @ quote @ ''.'')))
   \<and> callTool sample_platform upload_index ''https://api'' ''upload''
         (Some [''requestBody'' \<mapsto> JStr ''hello'', ''id'' \<mapsto> JStr ''7''])
       = ([], Inl (McpError InvalidParams
                    (''Unsupported request body content type for tool '' @ quote @ ''upload''
                       @ quote @ ''. Only application/json is supported.'')))"
  by code_simp

text \<open>
  Claim C5, amended. For every invocation whose resolved operation declares a request
  body with no \<^verbatim>\<open>application/json\<close> content entry and whose argument bag supplies
  a \<^verbatim>\<open>requestBody\<close> value, the handler throws and issues no HTTP request. When
  the parameter loop runs to its end (no required parameter is undefined and no
  placement throws), it throws the error with the message that the content type is
  unsupported: its code is \<^verbatim>\<open>InvalidParams\<close>, the one of the invalid-arguments
  errors, and its message differs from the message of each of them.
\<close>

theorem unsupported_content_type_after_parameters:
  assumes "opMap toolName = Some m"
    and "requestBody (m_operation m) = Some (Body b)"
    and "json_content b = None"
    and "args ''requestBody'' = Some v"
  shows "(\<exists>e. callTool pf (Some opMap) baseUrl toolName (Some args) = ([], Inl e))
         \<and> (process_parameters pf toolName args m = Inr st \<longrightarrow>
               callTool pf (Some opMap) baseUrl toolName (Some args)
                 = ([], Inl (unsupported_content_type toolName)))
         \<and> unsupported_content_type toolName
             = McpError InvalidParams
                 (''Unsupported request body content type for tool '' @ quote @ toolName
                    @ quote @ ''. Only application/json is supported.'')
         \<and> unsupported_content_type toolName \<noteq> missing_parameter k t
         \<and> unsupported_content_type toolName \<noteq> missing_body t
         \<and> unsupported_content_type toolName \<noteq> stringify_failed t msg"
proof -
  have body: "process_body pf toolName args (requestBody (m_operation m)) hs
      = Inl (unsupported_content_type toolName)" for hs
    by (simp add: process_body_def assms(2,3,4) get_property_requestBody)
  have always: "\<exists>e. callTool pf (Some opMap) baseUrl toolName (Some args) = ([], Inl e)"
  proof (cases "process_parameters pf toolName args m")
    case (Inl e)
    then show ?thesis
      using callTool_parameter_error[where opMap=opMap and tn=toolName, OF assms(1) Inl]
      by blast
  next
    case (Inr st')
    show ?thesis
      using callTool_body_error[where opMap=opMap and tn=toolName, OF assms(1) Inr body]
      by blast
  qed
  have reached: "callTool pf (Some opMap) baseUrl toolName (Some args)
      = ([], Inl (unsupported_content_type toolName))"
    if st: "process_parameters pf toolName args m = Inr st"
    by (rule callTool_body_error[where opMap=opMap and tn=toolName, OF assms(1) st body])
  have code: "unsupported_content_type toolName
      = McpError InvalidParams
          (''Unsupported request body content type for tool '' @ quote @ toolName
             @ quote @ ''. Only application/json is supported.'')"
    by (simp add: unsupported_content_type_def)
  show ?thesis
    using always reached code unsupported_ne_missing_parameter unsupported_ne_missing_body
      unsupported_ne_stringify_failed
    by blast
qed

theorem unsupported_content_type_after_parameters_witness:
  "callTool sample_platform upload_index ''https://api'' ''upload''
     (Some [''requestBody'' \<mapsto> JStr ''hello'', ''id'' \<mapsto> JStr ''7''])
   = ([], Inl (unsupported_content_type ''upload''))"
proof -
  let ?opMap = "buildOperationMap upload_doc (convertOpenAPIToMcTools upload_doc)"
  let ?args = "[''requestBody'' \<mapsto> JStr ''hello'', ''id'' \<mapsto> JStr ''7'']"
  let ?st = "\<lparr>processedPath = ''/files/7'', queryParams = [],
              headers = [(''accept'', ''application/json'')]\<rparr>"
  have idx: "upload_index = Some ?opMap"
    by (simp add: upload_index_def createCallToolHandler_def)
  have h1: "?opMap ''upload'' = Some upload_mapping"
    by code_simp
  have h2: "process_parameters sample_platform ''upload'' ?args upload_mapping = Inr ?st"
    by code_simp
  have h3: "requestBody (m_operation upload_mapping) = Some (Body upload_body)"
    by (simp add: upload_mapping_def upload_file_def plain_operation_def)
  have h4: "json_content upload_body = None"
    by (simp add: json_content_def upload_body_def)
  have h5: "?args ''requestBody'' = Some (JStr ''hello'')"
    by simp
  show ?thesis
    unfolding idx
    by (rule unsupported_content_type_after_parameters
          [where opMap = ?opMap and args = ?args, OF h1 h3 h4 h5,
           THEN conjunct2, THEN conjunct1, THEN mp, OF h2])
qed

section \<open>Request bodies that cannot be serialized\<close>




section \<open>The error flag of a result\<close>

lemma normalize_response_isError:
  "isError (normalize_response pf response) = (\<not> rs_ok response)"
  by (simp add: normalize_response_def Let_def split: sum.splits)

text \<open>
  Claim C6. When the handler has built its request and \<^verbatim>\<open>fetch\<close> has given a
  response, whether or not the body of the response can be read, the handler returns a
  result, and the error flag of the result is set exactly when the status is outside
  200..299; it does not throw the error of a failed request.
\<close>

theorem error_flag_iff_status_not_success:
  assumes "opMap toolName = Some m"
    and "build_request pf baseUrl toolName args m = Inr rq"
    and "fetch pf rq = Inr response"
  shows "\<exists>res. callTool pf (Some opMap) baseUrl toolName (Some args) = ([rq], Inr res)
           \<and> (isError res \<longleftrightarrow> \<not> (200 \<le> rs_status response \<and> rs_status response < 300))
           \<and> snd (callTool pf (Some opMap) baseUrl toolName (Some args))
               \<noteq> Inl (request_failed msg)"
  by (simp add: callTool_resolved[where opMap=opMap and tn=toolName, OF assms(1)] assms(2,3)
        normalize_response_isError rs_ok_def)

theorem error_flag_iff_status_not_success_witness:
  "(\<exists>res. callTool sample_platform repo_index ''https://api'' ''show'' (Some repo_args)
            = ([repo_request], Inr res) \<and> isError res)
   \<and> (\<exists>res. callTool ok_platform repo_index ''https://api'' ''show'' (Some repo_args)
            = ([repo_request], Inr res) \<and> \<not> isError res)"
proof -
  let ?opMap = "buildOperationMap repo_doc (convertOpenAPIToMcTools repo_doc)"
  have idx: "repo_index = Some ?opMap"
    by (simp add: repo_index_def createCallToolHandler_def)
  have h1: "?opMap ''show'' = Some repo_mapping"
    by code_simp
  have h2: "build_request sample_platform ''https://api'' ''show'' repo_args repo_mapping
      = Inr repo_request"
    by code_simp
  have h2': "build_request ok_platform ''https://api'' ''show'' repo_args repo_mapping
      = Inr repo_request"
    by code_simp
  have h3: "fetch sample_platform repo_request = Inr sample_response"
    by (simp add: sample_platform_def)
  have h3': "fetch ok_platform repo_request = Inr ok_response"
    by (simp add: ok_platform_def)
  have unread: "\<exists>res. callTool sample_platform (Some ?opMap) ''https://api'' ''show''
        (Some repo_args) = ([repo_request], Inr res) \<and> isError res"
    using error_flag_iff_status_not_success [where opMap = ?opMap and msg = "[]", OF h1 h2 h3]
    by (auto simp: sample_response_def)
  have fine: "\<exists>res. callTool ok_platform (Some ?opMap) ''https://api'' ''show''
        (Some repo_args) = ([repo_request], Inr res) \<and> \<not> isError res"
    using error_flag_iff_status_not_success [where opMap = ?opMap and msg = "[]", OF h1 h2' h3']
    by (auto simp: ok_response_def)
  show ?thesis
    using unread fine unfolding idx by (intro conjI)
qed

section \<open>Query parameters\<close>

lemma append_each_result:
  "append_each pf k vals q = Inr q' \<Longrightarrow>
   \<exists>texts. map (toStr pf) vals = map Inr texts \<and> q' = q @ map (Pair k) texts"
proof (induction vals arbitrary: q)
  case Nil
  then show ?case by simp
next
  case (Cons val vals)
  from Cons.prems obtain str where t: "toStr pf val = Inr str"
    and rest: "append_each pf k vals (qp_append q k str) = Inr q'"
    by (auto split: sum.splits)
  from Cons.IH[OF rest] obtain texts where "map (toStr pf) vals = map Inr texts"
    and "q' = qp_append q k str @ map (Pair k) texts"
    by blast
  then have "map (toStr pf) (val # vals) = map Inr (str # texts)
      \<and> q' = q @ map (Pair k) (str # texts)"
    using t by (simp add: qp_append_def)
  then show ?case by blast
qed

lemma entries_named_qp_set_other:
  "k' \<noteq> k \<Longrightarrow> entries_named k (qp_set q k' v) = entries_named k q"
proof (induction q)
  case Nil
  then show ?case by (simp add: entries_named_def)
next
  case (Cons e q)
  obtain k0 v0 where e: "e = (k0, v0)" by (cases e)
  have flt: "filter (\<lambda>x. fst x \<noteq> k' \<and> fst x = k) q = filter (\<lambda>e. fst e = k) q"
    by (rule filter_cong) (use Cons.prems in auto)
  show ?case
    using Cons by (auto simp: e entries_named_def flt)
qed

lemma entries_named_qp_set_same:
  "entries_named k (qp_set q k v) = [(k, v)]"
proof (induction q)
  case Nil
  then show ?case by (simp add: entries_named_def)
next
  case (Cons e q)
  obtain k0 v0 where e: "e = (k0, v0)" by (cases e)
  have flt: "filter (\<lambda>e. fst e = k) (filter (\<lambda>e. fst e \<noteq> k) q) = []"
    by (induction q) auto
  show ?case
    using Cons by (auto simp: e entries_named_def flt)
qed

lemma entries_named_pairs:
  "entries_named k (map (Pair k') texts) = (if k' = k then map (Pair k) texts else [])"
  by (induction texts) (auto simp: entries_named_def)

lemma place_argument_other_entries:
  assumes "\<not> (p_in p = ''query'' \<and> p_name p = k)"
    and "place_argument pf p v st = Inr st'"
  shows "entries_named k (queryParams st') = entries_named k (queryParams st)"
proof (cases "p_in p = ''query''")
  case True
  then have ne: "p_name p \<noteq> k" using assms(1) by simp
  show ?thesis
  proof (cases "\<exists>vals. v = JArr vals")
    case True
    then obtain vals where v: "v = JArr vals" by blast
    from assms(2) obtain q where q: "append_each pf (p_name p) vals (queryParams st) = Inr q"
      and st': "st' = st\<lparr>queryParams := q\<rparr>"
      using \<open>p_in p = ''query''\<close> by (auto simp: place_argument_def v split: sum.splits)
    from append_each_result[OF q] obtain texts
      where "q = queryParams st @ map (Pair (p_name p)) texts"
      by blast
    then show ?thesis
      using ne entries_named_pairs[of k "p_name p" texts]
      by (simp add: st' entries_named_def)
  next
    case False
    from assms(2) obtain str where "toStr pf v = Inr str"
      and "st' = st\<lparr>queryParams := qp_set (queryParams st) (p_name p) str\<rparr>"
      using \<open>p_in p = ''query''\<close> False
      by (cases v) (auto simp: place_argument_def split: sum.splits)
    then show ?thesis using ne by (simp add: entries_named_qp_set_other)
  qed
next
  case False
  then show ?thesis
    using assms(2) by (auto simp: place_argument_def split: if_splits sum.splits)
qed

lemma process_param_other_entries:
  assumes "\<not> query_named k pr" and "process_param pf tn args pr st = Inr st'"
  shows "entries_named k (queryParams st') = entries_named k (queryParams st)"
proof (cases pr)
  case (ParamRef r)
  then show ?thesis using assms(2) by (simp add: process_param_def)
next
  case (Param p)
  show ?thesis
  proof (cases "get_property args (p_name p)")
    case None
    then show ?thesis using assms(2) Param
      by (auto simp: process_param_def Let_def split: if_splits)
  next
    case (Some v)
    then have placed: "place_argument pf p v st = Inr st'"
      using assms(2) Param by (auto simp: process_param_def Let_def split: if_splits)
    have "\<not> (p_in p = ''query'' \<and> p_name p = k)"
      using assms(1) Param by (simp add: query_named_def)
    then show ?thesis by (rule place_argument_other_entries[OF _ placed])
  qed
qed

lemma process_params_other_entries:
  "list_all (\<lambda>pr. \<not> query_named k pr) ps \<Longrightarrow> process_params pf tn args ps st = Inr st' \<Longrightarrow>
   entries_named k (queryParams st') = entries_named k (queryParams st)"
proof (induction ps arbitrary: st)
  case Nil
  then show ?case by simp
next
  case (Cons pr ps)
  from Cons.prems(2) obtain st1 where s1: "process_param pf tn args pr st = Inr st1"
    and s2: "process_params pf tn args ps st1 = Inr st'"
    by (auto split: sum.splits)
  have "entries_named k (queryParams st1) = entries_named k (queryParams st)"
    using Cons.prems(1) process_param_other_entries[OF _ s1] by simp
  moreover have "entries_named k (queryParams st') = entries_named k (queryParams st1)"
    using Cons.prems(1) Cons.IH[OF _ s2] by simp
  ultimately show ?case by simp
qed

lemma place_argument_query_entries:
  assumes "p_in p = ''query''" and "entries_named (p_name p) (queryParams st) = []"
    and "place_argument pf p v st = Inr st'"
  shows "case v of
           JArr vals \<Rightarrow>
             \<exists>texts. map (toStr pf) vals = map Inr texts
                     \<and> entries_named (p_name p) (queryParams st') = map (Pair (p_name p)) texts
         | _ \<Rightarrow>
             \<exists>str. toStr pf v = Inr str
                    \<and> entries_named (p_name p) (queryParams st') = [(p_name p, str)]"
proof (cases "\<exists>vals. v = JArr vals")
  case True
  then obtain vals where v: "v = JArr vals" by blast
  from assms(3) obtain q where q: "append_each pf (p_name p) vals (queryParams st) = Inr q"
    and st': "st' = st\<lparr>queryParams := q\<rparr>"
    using assms(1) by (auto simp: place_argument_def v split: sum.splits)
  from append_each_result[OF q] obtain texts
    where t: "map (toStr pf) vals = map Inr texts"
      and "q = queryParams st @ map (Pair (p_name p)) texts"
    by blast
  then have "entries_named (p_name p) (queryParams st') = map (Pair (p_name p)) texts"
    using assms(2) entries_named_pairs[of "p_name p" "p_name p" texts]
    by (simp add: st' entries_named_def)
  then show ?thesis using t by (auto simp: v)
next
  case False
  from assms(3) obtain str where t: "toStr pf v = Inr str"
    and "st' = st\<lparr>queryParams := qp_set (queryParams st) (p_name p) str\<rparr>"
    using assms(1) False by (cases v) (auto simp: place_argument_def split: sum.splits)
  then have "entries_named (p_name p) (queryParams st') = [(p_name p, str)]"
    by (simp add: entries_named_qp_set_same)
  then show ?thesis using t False by (cases v) auto
qed

lemma build_request_url:
  "process_parameters pf tn args m = Inr st \<Longrightarrow> build_request pf baseUrl tn args m = Inr rq \<Longrightarrow>
   rq_url rq = baseUrl @ processedPath st
     @ (if query_toString pf (queryParams st) \<noteq> [] then ''?'' @ query_toString pf (queryParams st)
        else [])"
  by (auto simp: build_request_def Let_def split: sum.splits prod.splits)

text \<open>
  Claim C7. Take a query-located parameter that has a value in the argument bag, in an
  operation with no other query-located parameter of that name (the uniqueness the data
  model asks for), and an invocation whose parameter loop runs to its end. The query
  entries of that name are then: for an array value, one entry for each element, in the
  order of the elements, each holding the text \<^verbatim>\<open>String\<close> gives for its element;
  for any other value, the one entry holding the text \<^verbatim>\<open>String\<close> gives for the
  value. The query string of the request is the serialization of the entries.
\<close>

theorem query_entries_of_parameter:
  assumes "parameters (m_operation m) = Some (pre @ Param p # post)"
    and "p_in p = ''query''"
    and "list_all (\<lambda>pr. \<not> query_named (p_name p) pr) (pre @ post)"
    and "args (p_name p) = Some v"
    and "process_parameters pf toolName args m = Inr st"
  shows "(case v of
            JArr vals \<Rightarrow>
              \<exists>texts. map (toStr pf) vals = map Inr texts
                      \<and> entries_named (p_name p) (queryParams st) = map (Pair (p_name p)) texts
          | _ \<Rightarrow>
              \<exists>str. toStr pf v = Inr str
                     \<and> entries_named (p_name p) (queryParams st) = [(p_name p, str)])
         \<and> (build_request pf baseUrl toolName args m = Inr rq \<longrightarrow>
              rq_url rq = baseUrl @ processedPath st
                @ (if query_toString pf (queryParams st) \<noteq> []
                   then ''?'' @ query_toString pf (queryParams st) else []))"
proof -
  let ?k = "p_name p"
  have run: "process_params pf toolName args (pre @ Param p # post) (initial_state m) = Inr st"
    using assms(5) by (simp add: process_parameters_def assms(1))
  then obtain st1 where s1: "process_params pf toolName args pre (initial_state m) = Inr st1"
    and s2: "process_params pf toolName args (Param p # post) st1 = Inr st"
    by (auto simp: process_params_append split: sum.splits)
  from s2 obtain st2 where s3: "process_param pf toolName args (Param p) st1 = Inr st2"
    and s4: "process_params pf toolName args post st2 = Inr st"
    by (auto split: sum.splits)
  have pre: "list_all (\<lambda>pr. \<not> query_named ?k pr) pre"
    and post: "list_all (\<lambda>pr. \<not> query_named ?k pr) post"
    using assms(3) by simp_all
  have e1: "entries_named ?k (queryParams st1) = []"
    using process_params_other_entries[OF pre s1]
    by (simp add: initial_state_def entries_named_def)
  have own: "get_property args ?k = Some v"
    using assms(4) by (simp add: get_property_def)
  have placed: "place_argument pf p v st1 = Inr st2"
    using s3 own by (simp add: process_param_def Let_def split: if_splits)
  have e3: "entries_named ?k (queryParams st) = entries_named ?k (queryParams st2)"
    by (rule process_params_other_entries[OF post s4])
  have e2: "case v of
      JArr vals \<Rightarrow>
        \<exists>texts. map (toStr pf) vals = map Inr texts
                \<and> entries_named ?k (queryParams st) = map (Pair ?k) texts
    | _ \<Rightarrow>
        \<exists>str. toStr pf v = Inr str \<and> entries_named ?k (queryParams st) = [(?k, str)]"
    using place_argument_query_entries[OF assms(2) e1 placed] unfolding e3 .
  show ?thesis
    using e2 build_request_url[OF assms(5)] by simp
qed

theorem query_entries_of_parameter_witness:
  "process_parameters sample_platform ''get_pets_search'' search_args search_mapping
     = Inr \<lparr>processedPath = ''/pets/search'',
            queryParams = [(''tag'', ''cat''), (''tag'', ''small''), (''q'', ''tom'')],
            headers = [(''accept'', ''application/json'')]\<rparr>
   \<and> entries_named ''tag'' [(''tag'', ''cat''), (''tag'', ''small''), (''q'', ''tom'')]
       = [(''tag'', ''cat''), (''tag'', ''small'')]
   \<and> entries_named ''q'' [(''tag'', ''cat''), (''tag'', ''small''), (''q'', ''tom'')]
       = [(''q'', ''tom'')]
   \<and> fst (callTool sample_platform search_index ''https://api'' ''get_pets_search''
            (Some search_args))
       = [search_request]"
proof -
  let ?st = "\<lparr>processedPath = ''/pets/search'',
            queryParams = [(''tag'', ''cat''), (''tag'', ''small''), (''q'', ''tom'')],
            headers = [(''accept'', ''application/json'')]\<rparr>"
  let ?tag = "plain_param ''tag'' ''query''"
  let ?q = "plain_param ''q'' ''query''"
  have run: "process_parameters sample_platform ''get_pets_search'' search_args search_mapping
      = Inr ?st"
    by code_simp
  have tag1: "parameters (m_operation search_mapping) = Some ([] @ Param ?tag # [Param ?q])"
    by (simp add: search_mapping_def search_pets_def plain_operation_def)
  have q1: "parameters (m_operation search_mapping) = Some ([Param ?tag] @ Param ?q # [])"
    by (simp add: search_mapping_def search_pets_def plain_operation_def)
  have tag2: "p_in ?tag = ''query''" and q2: "p_in ?q = ''query''"
    by (simp_all add: plain_param_def)
  have tag3: "list_all (\<lambda>pr. \<not> query_named (p_name ?tag) pr) ([] @ [Param ?q])"
    by (simp add: query_named_def plain_param_def)
  have q3: "list_all (\<lambda>pr. \<not> query_named (p_name ?q) pr) ([Param ?tag] @ [])"
    by (simp add: query_named_def plain_param_def)
  have tag4: "search_args (p_name ?tag) = Some (JArr [JStr ''cat'', JStr ''small''])"
    by (simp add: search_args_def plain_param_def)
  have q4: "search_args (p_name ?q) = Some (JStr ''tom'')"
    by (simp add: search_args_def plain_param_def)
  have tag: "entries_named ''tag'' (queryParams ?st) = [(''tag'', ''cat''), (''tag'', ''small'')]"
    using query_entries_of_parameter [OF tag1 tag2 tag3 tag4 run, THEN conjunct1]
    by (auto simp: plain_param_def sample_platform_def map_eq_Cons_conv)
  have q: "entries_named ''q'' (queryParams ?st) = [(''q'', ''tom'')]"
    using query_entries_of_parameter [OF q1 q2 q3 q4 run, THEN conjunct1]
    by (auto simp: plain_param_def sample_platform_def)
  have sent: "fst (callTool sample_platform search_index ''https://api'' ''get_pets_search''
        (Some search_args)) = [search_request]"
    by code_simp
  show ?thesis
    using run tag q sent by simp
qed

section \<open>Parameters without a schema\<close>

lemma add_param_no_schema: "p_schema p = None \<Longrightarrow> add_param (Param p) acc = acc"
  by (simp add: add_param_def openApiSchemaToJsonSchema_def)

lemma add_params_append: "add_params (xs @ ys) acc = add_params ys (add_params xs acc)"
  by (induction xs arbitrary: acc) simp_all

lemma add_params_skip:
  "p_schema p = None \<Longrightarrow> add_params (pre @ Param p # post) acc = add_params (pre @ post) acc"
  by (simp add: add_params_append add_param_no_schema)

lemma key_in_keys: "(k, v) \<in> set xs \<Longrightarrow> k \<in> fst ` set xs"
  by force

lemma insert_index_keys:
  "set (map fst (insert_index n k v kvs)) = insert k (set (map fst kvs))"
proof (induction kvs)
  case Nil
  show ?case by simp
next
  case (Cons e kvs)
  obtain k0 v0 where e: "e = (k0, v0)" by (cases e)
  show ?case
    using Cons.IH
    by (cases "array_index k0") (auto simp: e simp del: set_map)
qed

lemma replace_keys: "map fst (map (\<lambda>e. if fst e = k then (k, v) else e) kvs) = map fst kvs"
  by (induction kvs) auto

lemma obj_set_other_key:
  assumes "k' \<noteq> k"
  shows "(k' \<in> set (map fst (obj_set kvs k v))) = (k' \<in> set (map fst kvs))"
proof -
  have "set (map fst (obj_set kvs k v)) = set (map fst kvs)
      \<or> set (map fst (obj_set kvs k v)) = insert k (set (map fst kvs))"
    unfolding obj_set_def
    by (cases "array_index k") (simp_all add: insert_index_keys replace_keys del: set_map map_map)
  then show ?thesis using assms by auto
qed

lemma add_param_names:
  assumes "\<not> param_named k pr"
  shows "(k \<in> set (map fst (fst (add_param pr acc)))) = (k \<in> set (map fst (fst acc)))"
    and "(k \<in> set (snd (add_param pr acc))) = (k \<in> set (snd acc))"
proof -
  show "(k \<in> set (map fst (fst (add_param pr acc)))) = (k \<in> set (map fst (fst acc)))"
  proof (cases pr)
    case (ParamRef r)
    then show ?thesis by (simp add: add_param_def)
  next
    case (Param p)
    then have "k \<noteq> p_name p" using assms by (simp add: param_named_def)
    then show ?thesis
      using obj_set_other_key[of k "p_name p" "fst acc"]
      by (cases "openApiSchemaToJsonSchema (p_schema p)")
         (simp_all add: Param add_param_def Let_def del: set_map)
  qed
  show "(k \<in> set (snd (add_param pr acc))) = (k \<in> set (snd acc))"
    using assms
    by (cases pr) (auto simp: add_param_def param_named_def Let_def split: option.splits)
qed

lemma add_params_names:
  "list_all (\<lambda>pr. \<not> param_named k pr) ps \<Longrightarrow>
   (k \<in> set (map fst (fst (add_params ps acc)))) = (k \<in> set (map fst (fst acc)))
   \<and> (k \<in> set (snd (add_params ps acc))) = (k \<in> set (snd acc))"
  by (induction ps arbitrary: acc) (simp_all add: add_param_names del: set_map)

lemma add_body_names:
  assumes "k \<noteq> ''requestBody''"
  shows "(k \<in> set (map fst (fst (add_body rb acc)))) = (k \<in> set (map fst (fst acc)))
         \<and> (k \<in> set (snd (add_body rb acc))) = (k \<in> set (snd acc))"
  using assms obj_set_other_key[of k "''requestBody''" "fst acc"]
  by (auto simp: add_body_def Let_def simp del: set_map split: option.splits body_or_ref.splits)

lemma build_input_schema_names:
  assumes "list_all (\<lambda>pr. \<not> param_named k pr) (params_of opn)" and "k \<noteq> ''requestBody''"
  shows "k \<notin> set (property_names (build_input_schema opn))
         \<and> k \<notin> set (required_names (build_input_schema opn))"
proof -
  let ?acc1 = "case parameters opn of None \<Rightarrow> ([], []) | Some ps \<Rightarrow> add_params ps ([], [])"
  have a1: "k \<notin> set (map fst (fst ?acc1)) \<and> k \<notin> set (snd ?acc1)"
    using assms(1) add_params_names[of k _ "([], [])"]
    by (cases "parameters opn") (simp_all add: params_of_def del: set_map)
  have a2: "k \<notin> set (map fst (fst (add_body (requestBody opn) ?acc1)))
      \<and> k \<notin> set (snd (add_body (requestBody opn) ?acc1))"
    using a1 add_body_names[OF assms(2), of "requestBody opn" ?acc1] by simp
  show ?thesis
    using a2 by (auto simp: build_input_schema_def Let_def property_names_def required_names_def)
qed

text \<open>
  Claim C9, as the code has it. The claim says that invoking the tool without an
  argument under the name of a required parameter that has no schema fails with an
  invalid-arguments error. The one loop of the handler checks and places the parameters
  in turn: when an earlier argument is there and placing it throws, here a header value
  with a line feed that \<^verbatim>\<open>Headers.set\<close> refuses, the handler throws that
  \<^verbatim>\<open>TypeError\<close> and never gets to the required parameter.
\<close>

theorem schemaless_parameter_counterexample:
  "Param token_param \<in> set (params_of traced_refresh)
   \<and> p_schema token_param = None
   \<and> missing_required traced_args (Param token_param)
   \<and> callTool sample_platform traced_index ''https://api'' ''refresh'' (Some traced_args)
       = ([], Inl (TypeError (''Invalid character in header content ['' @ [CHR 0x22]
                                @ ''x-trace'' @ [CHR 0x22] @ '']'')))"
  by code_simp

text \<open>
  Claim C9, amended. Take an operation with a parameter whose schema node is absent. The
  input schema built for the operation is the one built without that parameter; when no
  other parameter has its name and the name is not \<^verbatim>\<open>requestBody\<close>, the name is
  neither among the properties nor in the required list, whether or not the parameter is
  marked required. When it is marked required, an invocation that resolves to the
  operation and for which \<^verbatim>\<open>args[name]\<close> is \<^verbatim>\<open>undefined\<close> throws and
  issues no HTTP request; when the loop gets as far as that parameter (no required
  parameter before it is undefined and no placement before it throws), it throws the
  \<^verbatim>\<open>InvalidParams\<close> error that names the parameter: the tool requires an
  argument that its schema does not show.
\<close>

theorem schemaless_parameter_hidden_but_enforced:
  assumes "parameters opn = Some (pre @ Param p # post)" and "p_schema p = None"
  shows "build_input_schema opn = build_input_schema (opn\<lparr>parameters := Some (pre @ post)\<rparr>)
         \<and> (list_all (\<lambda>pr. \<not> param_named (p_name p) pr) (pre @ post)
              \<and> p_name p \<noteq> ''requestBody'' \<longrightarrow>
                p_name p \<notin> set (property_names (build_input_schema opn))
                \<and> p_name p \<notin> set (required_names (build_input_schema opn)))
         \<and> (truthy_flag (p_required p) \<and> opMap toolName = Some m \<and> m_operation m = opn
              \<and> get_property args (p_name p) = None \<longrightarrow>
                (\<exists>e. callTool pf (Some opMap) baseUrl toolName (Some args) = ([], Inl e))
                \<and> (process_params pf toolName args pre (initial_state m) = Inr st1 \<longrightarrow>
                     callTool pf (Some opMap) baseUrl toolName (Some args)
                       = ([], Inl (McpError InvalidParams
                                    (''Missing required parameter '' @ quote @ p_name p
                                       @ quote @ '' for tool '' @ quote @ toolName @ quote
                                       @ ''.'')))))"
proof (intro conjI impI)
  show same: "build_input_schema opn = build_input_schema (opn\<lparr>parameters := Some (pre @ post)\<rparr>)"
    by (simp add: build_input_schema_def assms(1) add_params_skip[OF assms(2)])
  {
    assume h: "list_all (\<lambda>pr. \<not> param_named (p_name p) pr) (pre @ post)
      \<and> p_name p \<noteq> ''requestBody''"
    have "list_all (\<lambda>pr. \<not> param_named (p_name p) pr)
        (params_of (opn\<lparr>parameters := Some (pre @ post)\<rparr>))"
      using h by (simp add: params_of_def)
    from build_input_schema_names[OF this] h
    have "p_name p \<notin> set (property_names (build_input_schema opn))
      \<and> p_name p \<notin> set (required_names (build_input_schema opn))"
      unfolding same by blast
    then show "p_name p \<notin> set (property_names (build_input_schema opn))"
      and "p_name p \<notin> set (required_names (build_input_schema opn))"
      by simp_all
  }
  {
    assume h: "truthy_flag (p_required p) \<and> opMap toolName = Some m \<and> m_operation m = opn
      \<and> get_property args (p_name p) = None"
    then have r: "truthy_flag (p_required p)" and o: "opMap toolName = Some m"
      and mo: "m_operation m = opn" and n: "get_property args (p_name p) = None"
      by simp_all
    have mem: "Param p \<in> set (pre @ Param p # post)" by simp
    from process_params_fails_on_missing[where args=args and p=p, OF mem r n]
    obtain e where "process_params pf toolName args (pre @ Param p # post) (initial_state m) = Inl e"
      by blast
    then have "process_parameters pf toolName args m = Inl e"
      using mo assms(1) by (simp add: process_parameters_def)
    then have "callTool pf (Some opMap) baseUrl toolName (Some args) = ([], Inl e)"
      by (rule callTool_parameter_error[where opMap=opMap and tn=toolName, OF o])
    then show "\<exists>e. callTool pf (Some opMap) baseUrl toolName (Some args) = ([], Inl e)"
      by blast
    assume pre: "process_params pf toolName args pre (initial_state m) = Inr st1"
    have "process_parameters pf toolName args m = Inl (missing_parameter (p_name p) toolName)"
      using mo assms(1)
      by (simp add: process_parameters_def process_params_reaches_missing[OF pre r n])
    then have "callTool pf (Some opMap) baseUrl toolName (Some args)
        = ([], Inl (missing_parameter (p_name p) toolName))"
      by (rule callTool_parameter_error[where opMap=opMap and tn=toolName, OF o])
    then show "callTool pf (Some opMap) baseUrl toolName (Some args)
        = ([], Inl (McpError InvalidParams
                     (''Missing required parameter '' @ quote @ p_name p
                        @ quote @ '' for tool '' @ quote @ toolName @ quote @ ''.'')))"
      by (simp add: missing_parameter_def)
  }
qed

theorem schemaless_parameter_hidden_but_enforced_witness:
  "''token'' \<notin> set (property_names (build_input_schema refresh))
   \<and> ''token'' \<notin> set (required_names (build_input_schema refresh))
   \<and> callTool sample_platform refresh_index ''https://api'' ''refresh'' (Some Map.empty)
       = ([], Inl (McpError InvalidParams
                    (''Missing required parameter '' @ quote @ ''token'' @ quote
                       @ '' for tool '' @ quote @ ''refresh'' @ quote @ ''.'')))"
proof -
  let ?opMap = "buildOperationMap refresh_doc (convertOpenAPIToMcTools refresh_doc)"
  have idx: "refresh_index = Some ?opMap"
    by (simp add: refresh_index_def createCallToolHandler_def)
  have h1: "parameters refresh = Some ([] @ Param token_param # [])"
    by (simp add: refresh_def plain_operation_def)
  have h2: "p_schema token_param = None"
    by (simp add: token_param_def plain_param_def)
  have n: "p_name token_param = ''token''"
    by (simp add: token_param_def plain_param_def)
  have r: "truthy_flag (p_required token_param)"
    by (simp add: token_param_def plain_param_def truthy_flag_def)
  have o: "?opMap ''refresh'' = Some refresh_mapping"
    by code_simp
  have mo: "m_operation refresh_mapping = refresh"
    by (simp add: refresh_mapping_def)
  have u: "get_property Map.empty ''token'' = None"
    by code_simp
  note t = schemaless_parameter_hidden_but_enforced
    [where opMap = ?opMap and toolName = "''refresh''" and m = refresh_mapping
       and args = Map.empty and pf = sample_platform and baseUrl = "''https://api''"
       and ?st1.0 = "initial_state refresh_mapping",
     OF h1 h2]
  have names: "''token'' \<notin> set (property_names (build_input_schema refresh))
      \<and> ''token'' \<notin> set (required_names (build_input_schema refresh))"
    using t [THEN conjunct2, THEN conjunct1] n by simp
  have call: "callTool sample_platform (Some ?opMap) ''https://api'' ''refresh''
        (Some Map.empty)
      = ([], Inl (McpError InvalidParams
                   (''Missing required parameter '' @ quote @ ''token'' @ quote
                      @ '' for tool '' @ quote @ ''refresh'' @ quote @ ''.'')))"
    using t [THEN conjunct2, THEN conjunct2] r o mo u by (simp add: n)
  show ?thesis
    using names call unfolding idx by simp
qed

section \<open>Descriptions and default values in the Schema Translator\<close>

lemma truthy_default_carried:
  "js_default (attrs (translate (Schema a its props)))
     = (if truthy_opt (oa_default a) then oa_default a else None)"
proof -
  have "js_default (map_type a) = None"
    by (simp add: map_type_def empty_attrs_def Let_def split: option.splits)
  then show ?thesis
    by (simp add: carry_default_def carry_description_def)
qed

lemma trim_not_empty:
  assumes "c \<in> set t" and "\<not> is_space c"
  shows "trim t \<noteq> []"
proof -
  let ?d = "dropWhile is_space t"
  have "?d \<noteq> []" using assms by auto
  then have "\<not> is_space (hd ?d)" by (simp add: hd_dropWhile)
  moreover have "hd ?d \<in> set (rev ?d)" using \<open>?d \<noteq> []\<close> by simp
  ultimately have "dropWhile is_space (rev ?d) \<noteq> []"
    by auto
  then show ?thesis by (simp add: trim_def)
qed

lemma binary_note_not_empty: "trim (s @ binary_note) \<noteq> []"
proof -
  have "CHR '')'' \<in> set (s @ binary_note)" by (simp add: binary_note_def)
  moreover have "\<not> is_space CHR '')''" by (simp add: is_space_def)
  ultimately show ?thesis by (rule trim_not_empty)
qed

lemma binary_description_preserved:
  assumes "oa_type a = Some ''string''"
    and "oa_format a = Some ''byte'' \<or> oa_format a = Some ''binary''"
  shows "js_description (attrs (translate (Schema a its props)))
           = Some (trim (or_empty (oa_description a) @ binary_note))"
proof -
  have "js_description (map_type a) = Some (trim (or_empty (oa_description a) @ binary_note))"
    using assms by (auto simp: map_type_def empty_attrs_def Let_def split: option.splits)
  then show ?thesis
    by (simp add: carry_default_def carry_description_def truthy_str_def binary_note_not_empty)
qed

lemma plain_description_carried:
  assumes "truthy_str (oa_description a)"
    and "\<not> (oa_type a = Some ''string''
            \<and> (oa_format a = Some ''byte'' \<or> oa_format a = Some ''binary''))"
  shows "js_description (attrs (translate (Schema a its props))) = oa_description a"
proof -
  have "js_description (map_type a) = None"
    using assms(2) by (auto simp: map_type_def empty_attrs_def Let_def split: option.splits)
  then show ?thesis
    using assms(1) by (simp add: carry_default_def carry_description_def truthy_str_def)
qed

text \<open>
  Claim C3, at an input where the code departs from it. The claim says a default value
  of a schema node is carried through. The translator tests the default for truthiness
  (\<^verbatim>\<open>if (oaSchema.default)\<close>): a boolean node with the default \<^verbatim>\<open>false\<close> and
  an integer node with the default \<^verbatim>\<open>0\<close> are translated to schemas without a
  default.
\<close>

theorem falsy_default_dropped:
  "openApiSchemaToJsonSchema
     (Some (Schema (no_attrs\<lparr>oa_type := Some ''boolean'', oa_default := Some (JBool False)\<rparr>)
              None None))
     = Some (JsSchema (empty_attrs\<lparr>js_type := Some ''boolean''\<rparr>) None None)
   \<and> openApiSchemaToJsonSchema
       (Some (Schema (no_attrs\<lparr>oa_type := Some ''integer'',
                               oa_default := Some (JNum (Finite 0))\<rparr>) None None))
     = Some (JsSchema (empty_attrs\<lparr>js_type := Some ''integer''\<rparr>) None None)"
  by code_simp

end
